theory Spec2Isabelle
  imports Complex_Main "HOL-Library.Char_ord" "HOL-Library.List_Lexorder"
begin

section \<open>Data model\<close>

text \<open>
  The detectors of \<^verbatim>\<open>analytics/security.py\<close>, \<^verbatim>\<open>analytics/anomaly.py\<close>,
  \<^verbatim>\<open>ml/risk_scoring.py\<close> and \<^verbatim>\<open>alerts/alert_engine.py\<close> work on a pandas
  DataFrame. The table is modelled as the list of its column names together with the list
  of its rows; a row carries a value for every field the detectors read, and the value of
  a field whose column is absent is never looked at: reading an absent column is the
  \<open>KeyError\<close> pandas raises. Timestamps are integers (seconds), strings are compared
  as Python compares them (lexicographically by character code), and the floating-point
  numbers of the source are real numbers.
\<close>

datatype error = KeyError string | ValueError string

record event =
  timestamp :: int
  hour_bucket :: int
  user_id :: string
  ip_address :: string
  endpoint :: string
  country :: string
  service :: string
  session_id :: string
  is_failure :: bool
  latency_ms :: real

record dataframe =
  columns :: "string list"
  rows :: "event list"

definition has_col :: "dataframe \<Rightarrow> string \<Rightarrow> bool" where
  "has_col df c = (c \<in> set (columns df))"

text \<open>\<^verbatim>\<open>SECURITY\<close> of \<^verbatim>\<open>config/settings.py\<close>.\<close>

record security_config =
  brute_force_threshold :: int
  brute_force_window_min :: int
  credential_stuffing_threshold :: int
  credential_stuffing_window_min :: int
  high_risk_score :: real
  critical_risk_score :: real

definition SECURITY :: security_config where
  "SECURITY = \<lparr> brute_force_threshold = 5, brute_force_window_min = 10,
     credential_stuffing_threshold = 3, credential_stuffing_window_min = 5,
     high_risk_score = 70, critical_risk_score = 85 \<rparr>"

section \<open>The pandas operations the detectors use\<close>

text \<open>\<^verbatim>\<open>Series.unique()\<close>: the distinct values in order of first appearance.\<close>

fun unique_from :: "'a list \<Rightarrow> 'a list \<Rightarrow> 'a list" where
  "unique_from seen [] = []"
| "unique_from seen (x # xs) =
     (if x \<in> set seen then unique_from seen xs else x # unique_from (x # seen) xs)"

definition pd_unique :: "'a list \<Rightarrow> 'a list" where
  "pd_unique xs = unique_from [] xs"

definition nunique :: "'a list \<Rightarrow> nat" where
  "nunique xs = length (pd_unique xs)"

text \<open>
  \<^verbatim>\<open>Series.mode()\<close>: the most frequent values, sorted ascending;
  \<^verbatim>\<open>.iloc[0]\<close> takes the least of them and raises on an empty result.
\<close>

definition pd_mode :: "string list \<Rightarrow> string list" where
  "pd_mode xs =
     (let vs = sort (remdups xs);
          m = fold max (map (count_list xs) vs) 0
      in filter (\<lambda>v. count_list xs v = m) vs)"

definition mode_iloc0 :: "string list \<Rightarrow> string option" where
  "mode_iloc0 xs = (case pd_mode xs of [] \<Rightarrow> None | v # _ \<Rightarrow> Some v)"

text \<open>
  \<^verbatim>\<open>df.groupby(key)\<close>, iterated: one group per distinct key, in ascending key order,
  each group keeping the rows in table order.
\<close>

definition groupby :: "(event \<Rightarrow> 'k::linorder) \<Rightarrow> event list \<Rightarrow> ('k \<times> event list) list" where
  "groupby key rs = map (\<lambda>k. (k, filter (\<lambda>r. key r = k) rs)) (sort (remdups (map key rs)))"

text \<open>\<^verbatim>\<open>str.lower()\<close> on ASCII text.\<close>

definition lower_char :: "char \<Rightarrow> char" where
  "lower_char c =
     (let n = (of_char c :: nat) in if 65 \<le> n \<and> n \<le> 90 then char_of (n + 32) else c)"

definition str_lower :: "string \<Rightarrow> string" where
  "str_lower s = map lower_char s"

text \<open>
  \<^verbatim>\<open>group.resample(window).size()\<close> on a time-sorted index, for a window of \<open>W\<close>
  seconds: the bins are left-closed, \<open>W\<close> wide, anchored at midnight of the day of the
  first timestamp (pandas' default origin \<^verbatim>\<open>start_day\<close>); every bin from the one holding
  the first timestamp to the one holding the last is reported with its row count, empty
  bins included.
\<close>

definition normalize_day :: "int \<Rightarrow> int" where
  "normalize_day t = t - t mod 86400"

definition first_bin :: "int \<Rightarrow> int \<Rightarrow> int" where
  "first_bin W t0 = t0 - (t0 - normalize_day t0) mod W"

definition resample_size :: "int \<Rightarrow> int list \<Rightarrow> (int \<times> nat) list" where
  "resample_size W ts =
     (case ts of [] \<Rightarrow> []
      | t0 # _ \<Rightarrow>
          (let start = first_bin W t0;
               nb = nat ((last ts - start) div W) + 1
           in map (\<lambda>k. let b = start + int k * W
                        in (b, length (filter (\<lambda>t. b \<le> t \<and> t < b + W) ts))) [0..<nb]))"

section \<open>Brute-force detector\<close>

record bf_detection =
  bf_detection_type :: string
  bf_ip_address :: string
  bf_timestamp :: int
  bf_attempt_count :: int
  bf_targeted_users :: "string list"
  bf_mitre_technique :: string
  bf_mitre_name :: string
  bf_severity :: string
  bf_country :: string

definition login_endpoints :: "string list" where
  "login_endpoints = [''/login'', ''/auth'', ''/signin'', ''/authenticate'', ''/token'']"

text \<open>
  \<^verbatim>\<open>group.loc[ts:ts + pd.Timedelta(window)]\<close>: a label slice of a sorted
  DatetimeIndex, which pandas takes with both ends included.
\<close>

definition loc_slice :: "int \<Rightarrow> int \<Rightarrow> event list \<Rightarrow> event list" where
  "loc_slice lo hi g = filter (\<lambda>e. lo \<le> timestamp e \<and> timestamp e \<le> hi) g"

text \<open>
  The country of a detection: the mode of the window when the column is present and the
  window has rows, else \<^verbatim>\<open>"Unknown"\<close>.
\<close>

definition window_country :: "dataframe \<Rightarrow> event list \<Rightarrow> string" where
  "window_country df window_data =
     (if has_col df ''country'' \<and> 0 < length window_data
      then (case mode_iloc0 (map country window_data) of Some c \<Rightarrow> c | None \<Rightarrow> ''Unknown'')
      else ''Unknown'')"

definition bf_record :: "security_config \<Rightarrow> dataframe \<Rightarrow> string \<Rightarrow> event list \<Rightarrow> int \<Rightarrow> int \<times> nat
    \<Rightarrow> bf_detection" where
  "bf_record cfg df ip g W b =
     (let ts = fst b; count = int (snd b);
          window_data = loc_slice ts (ts + W) g;
          targeted_users = (if has_col df ''user_id'' then pd_unique (map user_id window_data) else [])
      in \<lparr> bf_detection_type = ''brute_force'',
           bf_ip_address = ip,
           bf_timestamp = ts,
           bf_attempt_count = count,
           bf_targeted_users = take 5 targeted_users,
           bf_mitre_technique = ''T1110'',
           bf_mitre_name = ''Brute Force'',
           bf_severity = (if brute_force_threshold cfg * 2 \<le> count then ''CRITICAL'' else ''WARNING''),
           bf_country = window_country df window_data \<rparr>)"

text \<open>
  The body of the loop over addresses (lines 37 to 56). \<^verbatim>\<open>sort_values("timestamp")\<close>
  is a stable sort here: rows of equal time, whose order pandas' default sort does not
  promise, keep their table order.
\<close>

definition bf_group :: "security_config \<Rightarrow> dataframe \<Rightarrow> int \<Rightarrow> string \<times> event list \<Rightarrow> bf_detection list" where
  "bf_group cfg df W ig =
     (let g = sort_key timestamp (snd ig);
          rolling_count = resample_size W (map timestamp g);
          breaches = filter (\<lambda>b. brute_force_threshold cfg \<le> int (snd b)) rolling_count
      in map (bf_record cfg df (fst ig) g W) breaches)"

text \<open>
  The filter of lines 21 to 27, and the detector. The window is
  \<^verbatim>\<open>brute_force_window_min\<close> minutes, as seconds; pandas cannot resample at a window
  that is not positive, and the detector fails there once it has failures to bucket.
\<close>

definition auth_failures_bf :: "dataframe \<Rightarrow> event list" where
  "auth_failures_bf df =
     filter (\<lambda>e. is_failure e \<and>
                 (has_col df ''endpoint'' \<longrightarrow> str_lower (endpoint e) \<in> set login_endpoints))
       (rows df)"

definition detect_brute_force :: "security_config \<Rightarrow> dataframe \<Rightarrow> error + bf_detection list" where
  "detect_brute_force cfg df =
     (if \<not> has_col df ''timestamp'' \<or> \<not> has_col df ''ip_address'' then Inr []
      else if \<not> has_col df ''is_failure'' then Inl (KeyError ''is_failure'')
      else let failures = auth_failures_bf df
           in if failures = [] then Inr []
              else let W = 60 * brute_force_window_min cfg
                   in if W \<le> 0 then Inl (ValueError ''window'')
                      else Inr (concat (map (bf_group cfg df W) (groupby ip_address failures))))"

section \<open>Credential-stuffing detector\<close>

record cs_detection =
  cs_detection_type :: string
  cs_ip_address :: string
  cs_timestamp :: int
  cs_unique_users_targeted :: int
  cs_total_attempts :: int
  cs_mitre_technique :: string
  cs_mitre_name :: string
  cs_severity :: string
  cs_country :: string

text \<open>\<^verbatim>\<open>range(0, len(group), max(1, len(group) // 20))\<close>.\<close>

definition start_points :: "nat \<Rightarrow> nat list" where
  "start_points n = (let s = max 1 (n div 20) in map (\<lambda>k. k * s) [0..<(n + s - 1) div s])"

text \<open>
  The rows of the group between the start row's time and that time plus the window, both
  ends included (\<^verbatim>\<open>>= ts\<close> and \<^verbatim>\<open><= window_end\<close>).
\<close>

definition cs_window :: "event list \<Rightarrow> int \<Rightarrow> int \<Rightarrow> event list" where
  "cs_window g W ts = filter (\<lambda>e. ts \<le> timestamp e \<and> timestamp e \<le> ts + W) g"

definition cs_record :: "dataframe \<Rightarrow> string \<Rightarrow> int \<Rightarrow> event list \<Rightarrow> cs_detection" where
  "cs_record df ip ts window_data =
     \<lparr> cs_detection_type = ''credential_stuffing'',
       cs_ip_address = ip,
       cs_timestamp = ts,
       cs_unique_users_targeted = int (nunique (map user_id window_data)),
       cs_total_attempts = int (length window_data),
       cs_mitre_technique = ''T1110.004'',
       cs_mitre_name = ''Credential Stuffing'',
       cs_severity = ''CRITICAL'',
       cs_country = window_country df window_data \<rparr>"

text \<open>
  The inner loop over the start points: the first start point whose window holds at
  least the threshold of distinct users gives the record, and \<^verbatim>\<open>break\<close> ends the loop.
  In \<open>cs_group\<close> the sort of line 78 is taken as a stable sort, as in \<open>bf_group\<close>; the
  time of a start row, the users and the number of rows of its window and the mode of
  their countries do not depend on the order of rows of equal time.
\<close>

fun cs_scan :: "security_config \<Rightarrow> dataframe \<Rightarrow> string \<Rightarrow> event list \<Rightarrow> int \<Rightarrow> nat list
    \<Rightarrow> cs_detection list" where
  "cs_scan cfg df ip g W [] = []"
| "cs_scan cfg df ip g W (i # is) =
     (let ts = timestamp (g ! i);
          window_data = cs_window g W ts;
          unique_users = int (nunique (map user_id window_data))
      in if credential_stuffing_threshold cfg \<le> unique_users
         then [cs_record df ip ts window_data]
         else cs_scan cfg df ip g W is)"

definition cs_group :: "security_config \<Rightarrow> dataframe \<Rightarrow> string \<times> event list \<Rightarrow> cs_detection list" where
  "cs_group cfg df ig =
     (let g = sort_key timestamp (snd ig)
      in cs_scan cfg df (fst ig) g (60 * credential_stuffing_window_min cfg)
           (start_points (length g)))"

definition detect_credential_stuffing :: "security_config \<Rightarrow> dataframe \<Rightarrow> error + cs_detection list" where
  "detect_credential_stuffing cfg df =
     (if \<not> has_col df ''timestamp'' \<or> \<not> has_col df ''ip_address'' \<or> \<not> has_col df ''user_id''
      then Inr []
      else if \<not> has_col df ''is_failure'' then Inl (KeyError ''is_failure'')
      else let auth_failures = filter is_failure (rows df)
           in if auth_failures = [] then Inr []
              else Inr (concat (map (cs_group cfg df) (groupby ip_address auth_failures))))"

section \<open>IP reputation scorer\<close>

text \<open>\<^verbatim>\<open>clip(lo, hi)\<close>, numpy's rounding to the nearest even, and \<^verbatim>\<open>round(n)\<close>.\<close>

definition clip :: "real \<Rightarrow> real \<Rightarrow> real \<Rightarrow> real" where
  "clip lo hi x = min hi (max lo x)"

definition rint :: "real \<Rightarrow> int" where
  "rint x =
     (let f = \<lfloor>x\<rfloor>; d = x - of_int f
      in if d < 1 / 2 then f else if 1 / 2 < d then f + 1 else if even f then f else f + 1)"

definition round_dp :: "nat \<Rightarrow> real \<Rightarrow> real" where
  "round_dp n x = of_int (rint (x * 10 ^ n)) / 10 ^ n"

text \<open>
  \<^verbatim>\<open>Series.quantile(q)\<close> with linear interpolation, on a non-empty series (every caller
  below has at least one row when it reads the result).
\<close>

definition quantile :: "real \<Rightarrow> real list \<Rightarrow> real" where
  "quantile q xs =
     (let s = sort xs;
          pos = real (length xs - 1) * q;
          lo = nat \<lfloor>pos\<rfloor>;
          hi = nat \<lceil>pos\<rceil>
      in s ! lo + (s ! hi - s ! lo) * (pos - real lo))"

text \<open>
  \<^verbatim>\<open>pd.cut(x, bins, labels)\<close>: the label of the first interval \<open>(lo, hi]\<close> of consecutive
  bin edges that holds \<open>x\<close>; no label (NaN) outside all of them.
\<close>

fun pd_cut :: "real list \<Rightarrow> string list \<Rightarrow> real \<Rightarrow> string option" where
  "pd_cut (lo # hi # bs) (l # ls) x =
     (if lo < x \<and> x \<le> hi then Some l else pd_cut (hi # bs) ls x)"
| "pd_cut bs ls x = None"

definition tier_labels :: "string list" where
  "tier_labels = [''Low'', ''Medium'', ''High'', ''Critical'']"

text \<open>
  \<^verbatim>\<open>sort_values(col, ascending=False)\<close>: descending, rows of equal score in table
  order. The order of rows of equal score is an idealisation: pandas' default sort
  does not promise it.
\<close>

definition sort_desc :: "('a \<Rightarrow> real) \<Rightarrow> 'a list \<Rightarrow> 'a list" where
  "sort_desc f xs = rev (sort_key f (rev xs))"

text \<open>
  One row of the reputation table. The aggregates \<^verbatim>\<open>unique_endpoints\<close> and
  \<^verbatim>\<open>unique_countries\<close> of line 117 and 118 feed nothing and are dropped by the column
  selection of line 147; they are left out.
\<close>

record ip_rep_row =
  rep_ip_address :: string
  rep_total_requests :: nat
  rep_failure_count :: nat
  rep_failure_ratio :: real
  rep_unique_users :: nat
  reputation_score :: real
  rep_risk_tier :: "string option"

definition ip_rep_row_of :: "dataframe \<Rightarrow> real \<Rightarrow> string \<times> event list \<Rightarrow> ip_rep_row" where
  "ip_rep_row_of df q95 ig =
     (let g = snd ig;
          total_requests = length g;
          failure_count = length (filter is_failure g);
          unique_users = (if has_col df ''user_id'' then nunique (map user_id g) else length g);
          failure_ratio = real failure_count / real total_requests;
          score_failure = clip 0 100 (failure_ratio * 100);
          score_volume = (if q95 < real total_requests then 80
                          else real total_requests / q95 * 40);
          score_user_spread = clip 0 100 (if 5 < unique_users
                                          then 60 + (real unique_users - 5) * 4 else 0);
          score = round_dp 1 (clip 0 100 (score_failure * 0.50 + score_volume * 0.20
                                          + score_user_spread * 0.30))
      in \<lparr> rep_ip_address = fst ig,
           rep_total_requests = total_requests,
           rep_failure_count = failure_count,
           rep_failure_ratio = failure_ratio,
           rep_unique_users = unique_users,
           reputation_score = score,
           rep_risk_tier = pd_cut [-1, 25, 50, 70, 100] tier_labels score \<rparr>)"

definition calculate_ip_reputation :: "dataframe \<Rightarrow> error + ip_rep_row list" where
  "calculate_ip_reputation df =
     (if \<not> has_col df ''ip_address'' then Inr []
      else if \<not> has_col df ''is_failure'' then Inl (KeyError ''is_failure'')
      else let groups = groupby ip_address (rows df)
           in if groups = [] then Inr []
              else let q95 = quantile 0.95 (map (\<lambda>ig. real (length (snd ig))) groups)
                   in Inr (sort_desc reputation_score (map (ip_rep_row_of df q95) groups)))"

section \<open>Geo-anomaly detector\<close>

record geo_anomaly =
  geo_user_id :: string
  geo_countries :: "string list"
  geo_num_countries :: nat
  geo_primary_country :: string
  geo_severity :: string
  geo_anomaly_type :: string

definition geo_row :: "string \<times> event list \<Rightarrow> geo_anomaly" where
  "geo_row ug =
     (let cs = map country (snd ug); n = nunique cs
      in \<lparr> geo_user_id = fst ug,
           geo_countries = pd_unique cs,
           geo_num_countries = n,
           geo_primary_country = (case mode_iloc0 cs of Some c \<Rightarrow> c | None \<Rightarrow> ''Unknown''),
           geo_severity = (if 5 \<le> n then ''CRITICAL'' else ''WARNING''),
           geo_anomaly_type = ''geo_deviation'' \<rparr>)"

definition detect_geo_anomalies :: "dataframe \<Rightarrow> error + geo_anomaly list" where
  "detect_geo_anomalies df =
     (if \<not> has_col df ''user_id'' \<or> \<not> has_col df ''country'' then Inr []
      else Inr (filter (\<lambda>a. 3 \<le> geo_num_countries a) (map geo_row (groupby user_id (rows df)))))"

section \<open>The security pipeline and its risk index\<close>

text \<open>
  The results bundle of \<^verbatim>\<open>run_security_analysis\<close>, without its \<^verbatim>\<open>mitre_mapping\<close>
  table, which restates the detections and feeds no other field.
\<close>

record security_results =
  brute_force :: "bf_detection list"
  credential_stuffing :: "cs_detection list"
  ip_reputation :: "ip_rep_row list"
  geo_anomalies :: "geo_anomaly list"
  risk_index :: int
  total_threats :: nat
  high_risk_ips :: nat
  failure_rate :: real

text \<open>
  Lines 217 to 225 of \<^verbatim>\<open>run_security_analysis\<close>: the index is accumulated term by term,
  the high-risk-IP term only when the reputation table is not empty, and capped at the end.
\<close>

definition count_high_risk :: "security_config \<Rightarrow> ip_rep_row list \<Rightarrow> nat" where
  "count_high_risk cfg reps = length (filter (\<lambda>r. high_risk_score cfg \<le> reputation_score r) reps)"

definition security_risk_index :: "security_config \<Rightarrow> bf_detection list \<Rightarrow> cs_detection list
    \<Rightarrow> geo_anomaly list \<Rightarrow> ip_rep_row list \<Rightarrow> int" where
  "security_risk_index cfg bf cs geo reps =
     (let risk_score = 0;
          risk_score = risk_score + min (int (length bf) * 5) 30;
          risk_score = risk_score + min (int (length cs) * 10) 30;
          risk_score = risk_score + min (int (length geo) * 3) 20;
          risk_score = (if reps \<noteq> []
                        then risk_score + min (int (count_high_risk cfg reps) * 2) 20
                        else risk_score)
      in min risk_score 100)"

definition bind_err :: "error + 'a \<Rightarrow> ('a \<Rightarrow> error + 'b) \<Rightarrow> error + 'b" where
  "bind_err m f = (case m of Inl e \<Rightarrow> Inl e | Inr x \<Rightarrow> f x)"

definition run_security_analysis :: "security_config \<Rightarrow> dataframe \<Rightarrow> error + security_results" where
  "run_security_analysis cfg df =
     bind_err (detect_brute_force cfg df) (\<lambda>bf.
     bind_err (detect_credential_stuffing cfg df) (\<lambda>cs.
     bind_err (calculate_ip_reputation df) (\<lambda>reps.
     bind_err (detect_geo_anomalies df) (\<lambda>geo.
       let total = length (rows df);
           failure_count = (if has_col df ''is_failure'' then length (filter is_failure (rows df)) else 0);
           rate = (if 0 < total then real failure_count / real total * 100 else 0)
       in Inr \<lparr> brute_force = bf,
                credential_stuffing = cs,
                ip_reputation = reps,
                geo_anomalies = geo,
                risk_index = security_risk_index cfg bf cs geo reps,
                total_threats = length bf + length cs,
                high_risk_ips = (if reps \<noteq> [] then count_high_risk cfg reps else 0),
                failure_rate = round_dp 2 rate \<rparr>))))"

section \<open>Credential stuffing: the test of one start row\<close>

text \<open>
  The test the inner loop of the detector makes at start row \<open>i\<close> of the time-sorted
  failure rows \<open>g\<close> of one address (lines 83 to 87).
\<close>

definition cs_hit :: "security_config \<Rightarrow> event list \<Rightarrow> nat \<Rightarrow> bool" where
  "cs_hit cfg g i =
     (credential_stuffing_threshold cfg
        \<le> int (nunique (map user_id
              (cs_window g (60 * credential_stuffing_window_min cfg) (timestamp (g ! i))))))"

section \<open>Anomaly engine\<close>

text \<open>\<^verbatim>\<open>ML_CONFIG\<close> of \<^verbatim>\<open>config/settings.py\<close>, as far as the anomaly engine reads it.\<close>

record ml_config =
  zscore_window :: int
  zscore_threshold :: real

definition ML_CONFIG :: ml_config where
  "ML_CONFIG = \<lparr> zscore_window = 20, zscore_threshold = 2.5 \<rparr>"

text \<open>
  A rolling window of \<open>w\<close> observations ending at index \<open>i\<close> (fewer at the start of the
  series), its mean, and its sample standard deviation (\<open>ddof = 1\<close>), which pandas leaves
  undefined (NaN) on fewer than two observations.
\<close>

definition window_at :: "nat \<Rightarrow> real list \<Rightarrow> nat \<Rightarrow> real list" where
  "window_at w xs i = drop (i + 1 - w) (take (i + 1) xs)"

definition mean :: "real list \<Rightarrow> real" where
  "mean xs = sum_list xs / real (length xs)"

definition sample_std :: "real list \<Rightarrow> real option" where
  "sample_std xs =
     (if length xs < 2 then None
      else Some (sqrt (sum_list (map (\<lambda>x. (x - mean xs)\<^sup>2) xs) / real (length xs - 1))))"

definition zscore_at :: "nat \<Rightarrow> real list \<Rightarrow> nat \<Rightarrow> real" where
  "zscore_at w series i =
     (let win = window_at w series i;
          rolling_mean = mean win;
          rolling_std = (case sample_std win of None \<Rightarrow> 1 | Some s \<Rightarrow> s);
          rolling_std = (if rolling_std = 0 then 1 else rolling_std)
      in (series ! i - rolling_mean) / rolling_std)"

text \<open>
  \<^verbatim>\<open>rolling_zscore\<close>. pandas refuses a window below \<^verbatim>\<open>min_periods = 1\<close> when the
  rolling object is built.
\<close>

definition rolling_zscore :: "int \<Rightarrow> real list \<Rightarrow> error + real list" where
  "rolling_zscore window series =
     (if window < 1 then Inl (ValueError ''min_periods'')
      else Inr (map (zscore_at (nat window) series) [0..<length series]))"

text \<open>A column handed to a detector by name: the name and the accessor of its values.\<close>

record 'a col =
  col_name :: string
  col_get :: "event \<Rightarrow> 'a"

definition latency_ms_col :: "real col" where
  "latency_ms_col = \<lparr> col_name = ''latency_ms'', col_get = latency_ms \<rparr>"

definition hour_bucket_col :: "int col" where
  "hour_bucket_col = \<lparr> col_name = ''hour_bucket'', col_get = hour_bucket \<rparr>"

record spike =
  sp_time :: int
  sp_avg_value :: real
  sp_std_value :: "real option"
  sp_count :: nat
  sp_zscore :: real
  sp_is_spike :: bool
  sp_direction :: string
  sp_severity :: string

text \<open>
  \<^verbatim>\<open>detect_spikes\<close> up to line 49: one row per time bucket, in ascending bucket order,
  with the z-score of the bucket's mean, the spike flag and the direction. The severity
  is filled in for the rows the detector keeps.
\<close>

definition spike_row :: "real \<Rightarrow> (int \<times> event list) \<Rightarrow> real col \<Rightarrow> real \<Rightarrow> spike" where
  "spike_row threshold bg metric_col z =
     (let vs = map (col_get metric_col) (snd bg)
      in \<lparr> sp_time = fst bg,
           sp_avg_value = mean vs,
           sp_std_value = sample_std vs,
           sp_count = length vs,
           sp_zscore = z,
           sp_is_spike = (threshold < \<bar>z\<bar>),
           sp_direction = (if threshold < z then ''HIGH''
                           else if z < - threshold then ''LOW'' else ''NORMAL''),
           sp_severity = (if threshold * 1.5 < \<bar>z\<bar> then ''CRITICAL'' else ''WARNING'') \<rparr>)"

definition spike_series :: "ml_config \<Rightarrow> dataframe \<Rightarrow> real col \<Rightarrow> int col \<Rightarrow> real option
    \<Rightarrow> error + spike list" where
  "spike_series ml df metric_col time_col threshold =
     (let threshold = (case threshold of None \<Rightarrow> zscore_threshold ml | Some t \<Rightarrow> t);
          buckets = groupby (col_get time_col) (rows df);
          avg_value = map (\<lambda>bg. mean (map (col_get metric_col) (snd bg))) buckets
      in case rolling_zscore (zscore_window ml) avg_value of
           Inl e \<Rightarrow> Inl e
         | Inr zs \<Rightarrow> Inr (map (\<lambda>(bg, z). spike_row threshold bg metric_col z) (zip buckets zs)))"

definition detect_spikes :: "ml_config \<Rightarrow> dataframe \<Rightarrow> real col \<Rightarrow> int col \<Rightarrow> real option
    \<Rightarrow> error + spike list" where
  "detect_spikes ml df metric_col time_col threshold =
     (if \<not> has_col df (col_name metric_col) \<or> \<not> has_col df (col_name time_col) then Inr []
      else case spike_series ml df metric_col time_col threshold of
             Inl e \<Rightarrow> Inl e
           | Inr time_series \<Rightarrow> Inr (filter sp_is_spike time_series))"

record error_rate_row =
  er_time :: int
  er_total :: nat
  er_errors :: nat
  er_error_rate :: real
  er_zscore :: real
  er_is_spike :: bool

definition error_rate_of :: "event list \<Rightarrow> real" where
  "error_rate_of g = round_dp 2 (real (length (filter is_failure g)) / real (length g) * 100)"

definition detect_error_rate_spikes :: "ml_config \<Rightarrow> dataframe \<Rightarrow> int col \<Rightarrow> error + error_rate_row list" where
  "detect_error_rate_spikes ml df time_col =
     (if \<not> has_col df ''is_failure'' \<or> \<not> has_col df (col_name time_col) then Inr []
      else let buckets = groupby (col_get time_col) (rows df);
               error_rate = map (\<lambda>bg. error_rate_of (snd bg)) buckets
           in case rolling_zscore (zscore_window ml) error_rate of
                Inl e \<Rightarrow> Inl e
              | Inr zs \<Rightarrow>
                  Inr (map (\<lambda>(bg, z). \<lparr> er_time = fst bg,
                                         er_total = length (snd bg),
                                         er_errors = length (filter is_failure (snd bg)),
                                         er_error_rate = error_rate_of (snd bg),
                                         er_zscore = z,
                                         er_is_spike = (zscore_threshold ml < z) \<rparr>)
                        (zip buckets zs)))"

section \<open>Alert engine\<close>

text \<open>
  What \<^verbatim>\<open>generate_alerts\<close> reads from the performance, anomaly and risk results. The
  identifier of an alert is \<^verbatim>\<open>f"{prefix}-{len(alerts)+1:04d}"\<close>; the record keeps the
  prefix and the number, and \<open>alert_id\<close> renders the string. The timestamp and details
  texts of an alert play no part in numbering or ordering and are left out.
\<close>

record sla_breach =
  sla_service :: string
  sla_breach_details :: string
  sla_severity :: string

record bottleneck =
  bn_service :: string
  bn_detail :: string
  bn_severity :: string

record performance_results =
  sla_breaches :: "sla_breach list"
  bottlenecks :: "bottleneck list"

record anomaly_results =
  total_latency_spikes :: int
  total_error_spikes :: int

record risk_results =
  critical_users :: int

record alert =
  alert_prefix :: string
  alert_seq :: nat
  alert_title :: string
  alert_description :: string
  alert_severity :: string
  alert_category :: string
  alert_source :: string

fun show_nat :: "nat \<Rightarrow> string" where
  "show_nat n = (if n < 10 then [char_of (48 + n)]
                 else show_nat (n div 10) @ [char_of (48 + n mod 10)])"

definition show_int :: "int \<Rightarrow> string" where
  "show_int i = (if i < 0 then CHR ''-'' # show_nat (nat (- i)) else show_nat (nat i))"

definition pad4 :: "string \<Rightarrow> string" where
  "pad4 s = replicate (4 - length s) CHR ''0'' @ s"

definition alert_id :: "alert \<Rightarrow> string" where
  "alert_id a = alert_prefix a @ ''-'' @ pad4 (show_nat (alert_seq a))"

text \<open>\<^verbatim>\<open>alerts.append({...})\<close> with the identifier taken from the current length.\<close>

definition append_alert :: "string \<Rightarrow> string \<Rightarrow> string \<Rightarrow> string \<Rightarrow> string \<Rightarrow> string
    \<Rightarrow> alert list \<Rightarrow> alert list" where
  "append_alert prefix title description sev category source alerts =
     alerts @ [\<lparr> alert_prefix = prefix, alert_seq = length alerts + 1, alert_title = title,
                 alert_description = description, alert_severity = sev,
                 alert_category = category, alert_source = source \<rparr>]"

definition bf_alert :: "alert list \<Rightarrow> bf_detection \<Rightarrow> alert list" where
  "bf_alert alerts row =
     append_alert ''SEC-BF'' ''Brute Force Attack Detected''
       (''IP '' @ bf_ip_address row @ '' made '' @ show_int (bf_attempt_count row)
          @ '' failed login attempts.'')
       (bf_severity row) ''Security'' ''security_engine'' alerts"

definition cs_alert :: "alert list \<Rightarrow> cs_detection \<Rightarrow> alert list" where
  "cs_alert alerts row =
     append_alert ''SEC-CS'' ''Credential Stuffing Pattern''
       (''IP '' @ cs_ip_address row @ '' targeted '' @ show_int (cs_unique_users_targeted row)
          @ '' unique accounts.'')
       ''CRITICAL'' ''Security'' ''security_engine'' alerts"

definition sla_alert :: "alert list \<Rightarrow> sla_breach \<Rightarrow> alert list" where
  "sla_alert alerts row =
     append_alert ''PERF-SLA'' (''SLA Breach: '' @ sla_service row) (sla_breach_details row)
       (sla_severity row) ''Performance'' ''sla_monitor'' alerts"

definition bn_alert :: "alert list \<Rightarrow> bottleneck \<Rightarrow> alert list" where
  "bn_alert alerts bn =
     append_alert ''PERF-BN'' (''Bottleneck: '' @ bn_service bn) (bn_detail bn)
       (bn_severity bn) ''Performance'' ''bottleneck_detector'' alerts"

definition security_alerts :: "security_results option \<Rightarrow> alert list \<Rightarrow> alert list" where
  "security_alerts security alerts =
     (case security of None \<Rightarrow> alerts
      | Some s \<Rightarrow>
          (let alerts = foldl bf_alert alerts (brute_force s);
               alerts = foldl cs_alert alerts (credential_stuffing s)
           in if 0 < high_risk_ips s
              then append_alert ''SEC-IP'' ''High-Risk IPs Detected''
                     (show_nat (high_risk_ips s) @ '' IP addresses flagged with elevated risk scores.'')
                     ''WARNING'' ''Security'' ''ip_reputation'' alerts
              else alerts))"

definition performance_alerts :: "performance_results option \<Rightarrow> alert list \<Rightarrow> alert list" where
  "performance_alerts performance alerts =
     (case performance of None \<Rightarrow> alerts
      | Some p \<Rightarrow> foldl bn_alert (foldl sla_alert alerts (sla_breaches p)) (bottlenecks p))"

definition anomaly_alerts :: "anomaly_results option \<Rightarrow> alert list \<Rightarrow> alert list" where
  "anomaly_alerts anomaly alerts =
     (case anomaly of None \<Rightarrow> alerts
      | Some a \<Rightarrow>
          (let latency_spikes = total_latency_spikes a;
               alerts = (if 0 < latency_spikes
                         then append_alert ''ANOM-LAT'' ''Latency Anomalies Detected''
                                (show_int latency_spikes @ '' time periods with abnormal latency patterns.'')
                                (if latency_spikes < 5 then ''WARNING'' else ''CRITICAL'')
                                ''Anomaly'' ''anomaly_engine'' alerts
                         else alerts);
               error_spikes = total_error_spikes a
           in if 0 < error_spikes
              then append_alert ''ANOM-ERR'' ''Error Rate Anomalies''
                     (show_int error_spikes @ '' time periods with unusual error rate spikes.'')
                     (if 3 < error_spikes then ''CRITICAL'' else ''WARNING'')
                     ''Anomaly'' ''anomaly_engine'' alerts
              else alerts))"

definition risk_alerts :: "risk_results option \<Rightarrow> alert list \<Rightarrow> alert list" where
  "risk_alerts risk alerts =
     (case risk of None \<Rightarrow> alerts
      | Some r \<Rightarrow>
          (if 0 < critical_users r
           then append_alert ''RISK-USR'' ''Critical-Risk Users Identified''
                  (show_int (critical_users r) @ '' user(s) with risk scores above 75.'')
                  ''CRITICAL'' ''Risk'' ''risk_scoring'' alerts
           else alerts))"

text \<open>The alerts in the order they are appended, before the final sort.\<close>

definition collect_alerts :: "security_results option \<Rightarrow> performance_results option
    \<Rightarrow> anomaly_results option \<Rightarrow> risk_results option \<Rightarrow> alert list" where
  "collect_alerts security performance anomaly risk =
     risk_alerts risk (anomaly_alerts anomaly (performance_alerts performance
       (security_alerts security [])))"

definition severity_order :: "string \<Rightarrow> nat" where
  "severity_order s = (if s = ''CRITICAL'' then 0 else if s = ''WARNING'' then 1
                       else if s = ''INFO'' then 2 else 3)"

definition generate_alerts :: "security_results option \<Rightarrow> performance_results option
    \<Rightarrow> anomaly_results option \<Rightarrow> risk_results option \<Rightarrow> alert list" where
  "generate_alerts security performance anomaly risk =
     sort_key (\<lambda>a. severity_order (alert_severity a))
       (collect_alerts security performance anomaly risk)"

section \<open>Risk fusion: per-user risk scores\<close>

text \<open>
  The externally supplied ML signals. \<open>ml_results\<close> is the dictionary handed to
  \<^verbatim>\<open>calculate_user_risk_scores\<close>: an entry is \<open>None\<close> when its key is absent, and
  otherwise the table found under \<^verbatim>\<open>"results"\<close> (the empty table when that key is
  missing). The isolation-forest table has one row per session; its \<^verbatim>\<open>anomaly_score\<close>
  column may be absent. The k-means table has one row per user.
\<close>

record if_row =
  if_session_id :: string
  if_anomaly_score :: real

record if_table =
  if_columns :: "string list"
  if_rows :: "if_row list"

record km_row =
  km_user_id :: string
  km_cluster_label :: string

record km_table =
  km_columns :: "string list"
  km_rows :: "km_row list"

record ml_results =
  isolation_forest :: "if_table option"
  kmeans :: "km_table option"

record user_risk =
  ur_user_id :: string
  ur_total_requests :: nat
  ur_failure_rate :: real
  ur_unique_ips :: nat
  ur_unique_countries :: nat
  ur_avg_latency :: real
  avg_anomaly_score :: "real option"
  score_failure :: real
  score_anomaly :: real
  score_geo :: real
  score_cluster :: real
  score_volume :: real
  score_ip_rep :: real
  risk_score :: real
  risk_tier :: "string option"

text \<open>Lines 34 to 43: the base metrics of one user and the failure-rate component.\<close>

definition base_user :: "dataframe \<Rightarrow> string \<times> event list \<Rightarrow> user_risk" where
  "base_user df ug =
     (let g = snd ug;
          failure_rate = (if has_col df ''is_failure''
                          then real (length (filter is_failure g)) / real (length g) else 0)
      in \<lparr> ur_user_id = fst ug,
           ur_total_requests = length g,
           ur_failure_rate = failure_rate,
           ur_unique_ips = (if has_col df ''ip_address'' then nunique (map ip_address g) else 1),
           ur_unique_countries = (if has_col df ''country'' then nunique (map country g) else 1),
           ur_avg_latency = (if has_col df ''latency_ms'' then mean (map latency_ms g) else 0),
           avg_anomaly_score = None,
           score_failure = clip 0 100 (failure_rate * 100),
           score_anomaly = 0,
           score_geo = 0,
           score_cluster = 0,
           score_volume = 0,
           score_ip_rep = 0,
           risk_score = 0,
           risk_tier = None \<rparr>)"

text \<open>
  Lines 51 to 55: the distinct (session, user) pairs of the event table, the left join of
  the isolation-forest rows with them, and the mean anomaly score of the joined rows of
  one user; no value for a user without a joined row.
\<close>

definition session_user :: "dataframe \<Rightarrow> (string \<times> string) list" where
  "session_user df = pd_unique (map (\<lambda>e. (session_id e, user_id e)) (rows df))"

definition if_with_user :: "dataframe \<Rightarrow> if_table \<Rightarrow> (string option \<times> real) list" where
  "if_with_user df t =
     concat (map (\<lambda>r. case filter (\<lambda>su. fst su = if_session_id r) (session_user df) of
                         [] \<Rightarrow> [(None, if_anomaly_score r)]
                       | ms \<Rightarrow> map (\<lambda>su. (Some (snd su), if_anomaly_score r)) ms)
                 (if_rows t))"

definition user_anomaly :: "dataframe \<Rightarrow> if_table \<Rightarrow> string \<Rightarrow> real option" where
  "user_anomaly df t u =
     (case map snd (filter (\<lambda>p. fst p = Some u) (if_with_user df t)) of
        [] \<Rightarrow> None
      | scores \<Rightarrow> Some (mean scores))"

text \<open>
  Lines 45 to 58. The component keeps its default 0 unless the dictionary has an
  isolation-forest entry whose results table is not empty (pandas' \<^verbatim>\<open>empty\<close>: no rows
  or no columns) and the event table has the columns \<^verbatim>\<open>session_id\<close> and \<^verbatim>\<open>user_id\<close>.
  The merge of line 52 then raises \<^verbatim>\<open>KeyError\<close> when the results table has no
  \<^verbatim>\<open>session_id\<close> column. With an \<^verbatim>\<open>anomaly_score\<close> column the scores are averaged per
  user (a \<^verbatim>\<open>user_id\<close> column of the results table is renamed by the merge, and the
  \<^verbatim>\<open>groupby\<close> of line 54 raises), the averages are joined to the users, and line 58
  fills the missing average of a user without a joined score with 0 before the
  transform.
\<close>

definition with_anomaly :: "dataframe \<Rightarrow> ml_results option \<Rightarrow> user_risk list
    \<Rightarrow> error + user_risk list" where
  "with_anomaly df ml users =
     (case ml of None \<Rightarrow> Inr users
      | Some m \<Rightarrow>
          (case isolation_forest m of None \<Rightarrow> Inr users
           | Some t \<Rightarrow>
               if if_rows t = [] \<or> if_columns t = [] then Inr users
               else if \<not> has_col df ''session_id'' \<or> \<not> has_col df ''user_id'' then Inr users
               else if ''session_id'' \<notin> set (if_columns t) then Inl (KeyError ''session_id'')
               else if ''anomaly_score'' \<notin> set (if_columns t) then Inr users
               else if ''user_id'' \<in> set (if_columns t) then Inl (KeyError ''user_id'')
               else Inr (map (\<lambda>u. let a = user_anomaly df t (ur_user_id u)
                              in u\<lparr> avg_anomaly_score := a,
                                    score_anomaly :=
                                      clip 0 100 ((0 - (case a of None \<Rightarrow> 0 | Some v \<Rightarrow> v)) * 50 + 50) \<rparr>)
                         users)))"

text \<open>Lines 61 to 65.\<close>

definition with_geo :: "user_risk list \<Rightarrow> user_risk list" where
  "with_geo users =
     map (\<lambda>u. u\<lparr> score_geo := (if 5 \<le> ur_unique_countries u then 100
                                else if 3 \<le> ur_unique_countries u then 60
                                else if 2 \<le> ur_unique_countries u then 30 else 0) \<rparr>) users"

text \<open>
  Lines 67 to 79. \<^verbatim>\<open>"Suspicious" in str(x)\<close> is a substring test; the left join gives
  one row per matching k-means row, and a user without one keeps the component 0.
  Line 72 selects the columns \<^verbatim>\<open>user_id\<close> and \<^verbatim>\<open>cluster_label\<close> of the k-means table
  and raises \<^verbatim>\<open>KeyError\<close> when it has no \<^verbatim>\<open>user_id\<close> column.
\<close>

fun contains :: "string \<Rightarrow> string \<Rightarrow> bool" where
  "contains p [] = (p = [])"
| "contains p (c # cs) = (take (length p) (c # cs) = p \<or> contains p cs)"

definition cluster_score :: "string \<Rightarrow> real" where
  "cluster_score x = (if contains ''Suspicious'' x then 80 else if contains ''Power'' x then 20 else 0)"

definition cluster_rows :: "km_table \<Rightarrow> user_risk \<Rightarrow> user_risk list" where
  "cluster_rows t u =
     (case filter (\<lambda>r. km_user_id r = ur_user_id u) (km_rows t) of
        [] \<Rightarrow> [u]
      | ms \<Rightarrow> map (\<lambda>r. u\<lparr> score_cluster := cluster_score (km_cluster_label r) \<rparr>) ms)"

definition with_cluster :: "ml_results option \<Rightarrow> user_risk list \<Rightarrow> error + user_risk list" where
  "with_cluster ml users =
     (case ml of None \<Rightarrow> Inr users
      | Some m \<Rightarrow>
          (case kmeans m of None \<Rightarrow> Inr users
           | Some t \<Rightarrow>
               if km_rows t = [] \<or> km_columns t = [] then Inr users
               else if ''cluster_label'' \<notin> set (km_columns t) then Inr users
               else if ''user_id'' \<notin> set (km_columns t) then Inl (KeyError ''user_id'')
               else Inr (concat (map (cluster_rows t) users))))"

text \<open>Lines 81 to 86.\<close>

definition with_volume :: "user_risk list \<Rightarrow> user_risk list" where
  "with_volume users =
     (if users = [] then []
      else let totals = map (\<lambda>u. real (ur_total_requests u)) users;
               q99 = quantile 0.99 totals;
               q95 = quantile 0.95 totals
           in map (\<lambda>u. u\<lparr> score_volume := (if q99 < real (ur_total_requests u) then 70
                                             else if q95 < real (ur_total_requests u) then 40 else 0) \<rparr>)
                users)"

text \<open>
  Lines 88 to 99: the reputation score of the user's most frequent address, 0 when the
  reputation table has no row for it. Reading \<^verbatim>\<open>ip_address\<close> here is not guarded.
\<close>

definition primary_ip :: "dataframe \<Rightarrow> string \<Rightarrow> string" where
  "primary_ip df u =
     (case mode_iloc0 (map ip_address (filter (\<lambda>e. user_id e = u) (rows df))) of
        Some ip \<Rightarrow> ip | None \<Rightarrow> ''unknown'')"

definition ip_rep_rows :: "dataframe \<Rightarrow> ip_rep_row list \<Rightarrow> user_risk \<Rightarrow> user_risk list" where
  "ip_rep_rows df ip_rep u =
     (case filter (\<lambda>r. rep_ip_address r = primary_ip df (ur_user_id u)) ip_rep of
        [] \<Rightarrow> [u\<lparr> score_ip_rep := 0 \<rparr>]
      | ms \<Rightarrow> map (\<lambda>r. u\<lparr> score_ip_rep := reputation_score r \<rparr>) ms)"

definition with_ip_rep :: "dataframe \<Rightarrow> security_results option \<Rightarrow> user_risk list
    \<Rightarrow> error + user_risk list" where
  "with_ip_rep df security users =
     (case security of None \<Rightarrow> Inr users
      | Some s \<Rightarrow>
          if ip_reputation s = [] then Inr users
          else if \<not> has_col df ''ip_address'' then Inl (KeyError ''ip_address'')
          else Inr (concat (map (ip_rep_rows df (ip_reputation s)) users)))"

text \<open>Lines 101 to 116: the composite score and its tier.\<close>

definition composite :: "user_risk \<Rightarrow> real" where
  "composite u =
     round_dp 1 (clip 0 100 (score_failure u * 0.25 + score_anomaly u * 0.25 + score_geo u * 0.15
                             + score_cluster u * 0.15 + score_volume u * 0.10 + score_ip_rep u * 0.10))"

definition user_tier :: "real \<Rightarrow> string option" where
  "user_tier s = pd_cut [-1, 25, 50, 75, 100] tier_labels s"

definition with_composite :: "user_risk \<Rightarrow> user_risk" where
  "with_composite u = u\<lparr> risk_score := composite u, risk_tier := user_tier (composite u) \<rparr>"

definition calculate_user_risk_scores :: "dataframe \<Rightarrow> security_results option \<Rightarrow> ml_results option
    \<Rightarrow> error + user_risk list" where
  "calculate_user_risk_scores df security ml =
     (if \<not> has_col df ''user_id'' then Inr []
      else bind_err (with_anomaly df ml (map (base_user df) (groupby user_id (rows df))))
             (\<lambda>users. bind_err (with_cluster ml (with_geo users))
                (\<lambda>users. bind_err (with_ip_rep df security (with_volume users))
                   (\<lambda>users. Inr (sort_desc risk_score (map with_composite users))))))"

text \<open>The tier bins of the IP reputation scorer (line 141 of \<^verbatim>\<open>security.py\<close>).\<close>

definition reputation_tier :: "real \<Rightarrow> string option" where
  "reputation_tier s = pd_cut [-1, 25, 50, 70, 100] tier_labels s"

section \<open>Concrete tables\<close>

text \<open>
  A table with every column: eight failed logins on \<^verbatim>\<open>/login\<close> from one address within
  seventy seconds, against six users, the first user seen from three countries.
\<close>

definition all_columns :: "string list" where
  "all_columns = [''timestamp'', ''hour_bucket'', ''user_id'', ''ip_address'', ''endpoint'',
     ''country'', ''service'', ''session_id'', ''is_failure'', ''latency_ms'']"

definition login_failure :: "int \<Rightarrow> string \<Rightarrow> string \<Rightarrow> string \<Rightarrow> event" where
  "login_failure t ip u c =
     \<lparr> timestamp = t, hour_bucket = t - t mod 3600, user_id = u, ip_address = ip,
       endpoint = ''/login'', country = c, service = ''auth'', session_id = ''s-'' @ u,
       is_failure = True, latency_ms = 100 \<rparr>"

definition demo_table :: dataframe where
  "demo_table = \<lparr> columns = all_columns,
     rows = [login_failure 0 ''1.2.3.4'' ''a'' ''US'', login_failure 10 ''1.2.3.4'' ''a'' ''DE'',
             login_failure 20 ''1.2.3.4'' ''a'' ''FR'', login_failure 30 ''1.2.3.4'' ''b'' ''US'',
             login_failure 40 ''1.2.3.4'' ''c'' ''US'', login_failure 50 ''1.2.3.4'' ''d'' ''US'',
             login_failure 60 ''1.2.3.4'' ''e'' ''US'', login_failure 70 ''1.2.3.4'' ''f'' ''US''] \<rparr>"

definition demo_results :: security_results where
  "demo_results =
     \<lparr> brute_force =
         [\<lparr> bf_detection_type = ''brute_force'', bf_ip_address = ''1.2.3.4'',
            bf_timestamp = 0, bf_attempt_count = 8,
            bf_targeted_users = [''a'', ''b'', ''c'', ''d'', ''e''],
            bf_mitre_technique = ''T1110'', bf_mitre_name = ''Brute Force'',
            bf_severity = ''WARNING'', bf_country = ''US'' \<rparr>],
       credential_stuffing =
         [\<lparr> cs_detection_type = ''credential_stuffing'', cs_ip_address = ''1.2.3.4'',
            cs_timestamp = 0, cs_unique_users_targeted = 6, cs_total_attempts = 8,
            cs_mitre_technique = ''T1110.004'', cs_mitre_name = ''Credential Stuffing'',
            cs_severity = ''CRITICAL'', cs_country = ''US'' \<rparr>],
       ip_reputation =
         [\<lparr> rep_ip_address = ''1.2.3.4'', rep_total_requests = 8, rep_failure_count = 8,
            rep_failure_ratio = 1, rep_unique_users = 6, reputation_score = 386 / 5,
            rep_risk_tier = Some ''Critical'' \<rparr>],
       geo_anomalies =
         [\<lparr> geo_user_id = ''a'', geo_countries = [''US'', ''DE'', ''FR''],
            geo_num_countries = 3, geo_primary_country = ''DE'',
            geo_severity = ''WARNING'', geo_anomaly_type = ''geo_deviation'' \<rparr>],
       risk_index = 20, total_threats = 2, high_risk_ips = 1, failure_rate = 100 \<rparr>"

text \<open>
  Two addresses. The first fails against user \<open>a\<close> at second 0 and against \<open>b\<close>, \<open>c\<close>
  and \<open>d\<close> at seconds 400, 500 and 700: the five-minute window opening at its first
  row holds one user, the window opening at its second row holds three, the last of
  them exactly at the window's right end. The second address fails against two users.
\<close>

definition cs_table :: dataframe where
  "cs_table = \<lparr> columns = all_columns,
     rows = [login_failure 0 ''10.0.0.1'' ''a'' ''US'', login_failure 5 ''10.0.0.2'' ''x'' ''US'',
             login_failure 90 ''10.0.0.2'' ''y'' ''DE'', login_failure 400 ''10.0.0.1'' ''b'' ''US'',
             login_failure 500 ''10.0.0.1'' ''c'' ''DE'', login_failure 700 ''10.0.0.1'' ''d'' ''DE''] \<rparr>"

definition cs_table_detections :: "cs_detection list" where
  "cs_table_detections =
     [\<lparr> cs_detection_type = ''credential_stuffing'', cs_ip_address = ''10.0.0.1'',
        cs_timestamp = 400, cs_unique_users_targeted = 3, cs_total_attempts = 3,
        cs_mitre_technique = ''T1110.004'', cs_mitre_name = ''Credential Stuffing'',
        cs_severity = ''CRITICAL'', cs_country = ''DE'' \<rparr>]"

text \<open>
  Five failed logins of one address in the ten-minute bucket starting at 0, and a sixth
  failure exactly ten minutes after the bucket start, against another user.
\<close>

definition boundary_table :: dataframe where
  "boundary_table = \<lparr> columns = all_columns,
     rows = [login_failure 0 ''1.2.3.4'' ''a'' ''DE'', login_failure 10 ''1.2.3.4'' ''a'' ''DE'',
             login_failure 20 ''1.2.3.4'' ''a'' ''US'', login_failure 30 ''1.2.3.4'' ''a'' ''US'',
             login_failure 40 ''1.2.3.4'' ''a'' ''FR'', login_failure 600 ''1.2.3.4'' ''z'' ''US''] \<rparr>"

definition boundary_detections :: "bf_detection list" where
  "boundary_detections =
     [\<lparr> bf_detection_type = ''brute_force'', bf_ip_address = ''1.2.3.4'',
        bf_timestamp = 0, bf_attempt_count = 5,
        bf_targeted_users = [''a'', ''z''], bf_mitre_technique = ''T1110'',
        bf_mitre_name = ''Brute Force'', bf_severity = ''WARNING'',
        bf_country = ''US'' \<rparr>]"







text \<open>The rows of the first table under a column list without \<^verbatim>\<open>is_failure\<close>.\<close>

definition unflagged_table :: dataframe where
  "unflagged_table = \<lparr> columns = [''timestamp'', ''user_id'', ''ip_address'', ''endpoint'', ''country''],
     rows = rows demo_table \<rparr>"

text \<open>The alerts of a list carry the numbers 1, 2, 3, ... in list order.\<close>

definition numbered :: "alert list \<Rightarrow> bool" where
  "numbered alerts = (map alert_seq alerts = [1..<Suc (length alerts)])"

text \<open>
  Nine hourly buckets of one request each: eight failed requests of latency 100, then a
  successful request of latency 1000. The error-rate series is 100 eight times and then
  0; the latency series is 100 eight times and then 1000.
\<close>

definition request :: "int \<Rightarrow> real \<Rightarrow> bool \<Rightarrow> event" where
  "request t lat fail =
     \<lparr> timestamp = t, hour_bucket = t - t mod 3600, user_id = ''u'', ip_address = ''10.0.0.9'',
       endpoint = ''/api'', country = ''US'', service = ''api'', session_id = ''s'',
       is_failure = fail, latency_ms = lat \<rparr>"

definition hourly_table :: dataframe where
  "hourly_table = \<lparr> columns = all_columns,
     rows = [request 0 100 True, request 3600 100 True, request 7200 100 True,
             request 10800 100 True, request 14400 100 True, request 18000 100 True,
             request 21600 100 True, request 25200 100 True, request 28800 1000 False] \<rparr>"

text \<open>The rows the error-rate detector and the spike detector return on that table.\<close>

definition hourly_error_rows :: "error_rate_row list" where
  "hourly_error_rows =
     [\<lparr> er_time = 0, er_total = 1, er_errors = 1, er_error_rate = 100, er_zscore = 0, er_is_spike = False \<rparr>,
      \<lparr> er_time = 3600, er_total = 1, er_errors = 1, er_error_rate = 100, er_zscore = 0, er_is_spike = False \<rparr>,
      \<lparr> er_time = 7200, er_total = 1, er_errors = 1, er_error_rate = 100, er_zscore = 0, er_is_spike = False \<rparr>,
      \<lparr> er_time = 10800, er_total = 1, er_errors = 1, er_error_rate = 100, er_zscore = 0, er_is_spike = False \<rparr>,
      \<lparr> er_time = 14400, er_total = 1, er_errors = 1, er_error_rate = 100, er_zscore = 0, er_is_spike = False \<rparr>,
      \<lparr> er_time = 18000, er_total = 1, er_errors = 1, er_error_rate = 100, er_zscore = 0, er_is_spike = False \<rparr>,
      \<lparr> er_time = 21600, er_total = 1, er_errors = 1, er_error_rate = 100, er_zscore = 0, er_is_spike = False \<rparr>,
      \<lparr> er_time = 25200, er_total = 1, er_errors = 1, er_error_rate = 100, er_zscore = 0, er_is_spike = False \<rparr>,
      \<lparr> er_time = 28800, er_total = 1, er_errors = 0, er_error_rate = 0, er_zscore = - 8 / 3, er_is_spike = False \<rparr>]"

definition hourly_spikes :: "spike list" where
  "hourly_spikes =
     [\<lparr> sp_time = 28800, sp_avg_value = 1000, sp_std_value = None, sp_count = 1,
        sp_zscore = 8 / 3, sp_is_spike = True, sp_direction = ''HIGH'',
        sp_severity = ''WARNING'' \<rparr>]"

text \<open>
  Two users. The first fails five requests from five countries in one session that the
  isolation forest scores \<open>-1\<close>; the second makes one successful request in a session
  the isolation-forest table has no row for. A reputation table giving the first user's
  address the score 70.
\<close>

definition visit :: "int \<Rightarrow> string \<Rightarrow> string \<Rightarrow> string \<Rightarrow> string \<Rightarrow> bool \<Rightarrow> event" where
  "visit t u ip c s fail =
     \<lparr> timestamp = t, hour_bucket = t - t mod 3600, user_id = u, ip_address = ip,
       endpoint = ''/api'', country = c, service = ''api'', session_id = s,
       is_failure = fail, latency_ms = 100 \<rparr>"

definition fusion_table :: dataframe where
  "fusion_table = \<lparr> columns = all_columns,
     rows = [visit 0 ''alice'' ''10.0.0.1'' ''US'' ''s1'' True,
             visit 10 ''alice'' ''10.0.0.1'' ''DE'' ''s1'' True,
             visit 20 ''alice'' ''10.0.0.1'' ''FR'' ''s1'' True,
             visit 30 ''alice'' ''10.0.0.1'' ''GB'' ''s1'' True,
             visit 40 ''alice'' ''10.0.0.1'' ''JP'' ''s1'' True,
             visit 50 ''bob'' ''10.0.0.2'' ''US'' ''s2'' False] \<rparr>"

definition fusion_security :: security_results where
  "fusion_security = \<lparr> brute_force = [], credential_stuffing = [],
       ip_reputation = [\<lparr> rep_ip_address = ''10.0.0.1'', rep_total_requests = 5, rep_failure_count = 5,
                          rep_failure_ratio = 1, rep_unique_users = 1, reputation_score = 70,
                          rep_risk_tier = Some ''High'' \<rparr>],
       geo_anomalies = [], risk_index = 0, total_threats = 0, high_risk_ips = 1, failure_rate = 0 \<rparr>"

definition fusion_if_table :: if_table where
  "fusion_if_table = \<lparr> if_columns = [''session_id'', ''anomaly_score''],
                        if_rows = [\<lparr> if_session_id = ''s1'', if_anomaly_score = -1 \<rparr>] \<rparr>"

definition fusion_ml :: ml_results where
  "fusion_ml = \<lparr> isolation_forest = Some fusion_if_table, kmeans = None \<rparr>"

text \<open>
  The rows \<^verbatim>\<open>calculate_user_risk_scores\<close> returns on that table with the ML signals,
  without and with the reputation table.
\<close>

definition fusion_risks :: "user_risk list" where
  "fusion_risks =
     [\<lparr> ur_user_id = ''alice'', ur_total_requests = 5, ur_failure_rate = 1,
        ur_unique_ips = 1, ur_unique_countries = 5, ur_avg_latency = 100,
        avg_anomaly_score = Some (- 1), score_failure = 100,
        score_anomaly = 100, score_geo = 100, score_cluster = 0,
        score_volume = 70, score_ip_rep = 0, risk_score = 72,
        risk_tier = Some ''High'' \<rparr>,
      \<lparr> ur_user_id = ''bob'', ur_total_requests = 1, ur_failure_rate = 0,
        ur_unique_ips = 1, ur_unique_countries = 1, ur_avg_latency = 100,
        avg_anomaly_score = None, score_failure = 0, score_anomaly = 50,
        score_geo = 0, score_cluster = 0, score_volume = 0,
        score_ip_rep = 0, risk_score = 25 / 2, risk_tier = Some ''Low'' \<rparr>]"

definition fusion_risks_sec :: "user_risk list" where
  "fusion_risks_sec =
     [\<lparr> ur_user_id = ''alice'', ur_total_requests = 5, ur_failure_rate = 1,
        ur_unique_ips = 1, ur_unique_countries = 5, ur_avg_latency = 100,
        avg_anomaly_score = Some (- 1), score_failure = 100,
        score_anomaly = 100, score_geo = 100, score_cluster = 0,
        score_volume = 70, score_ip_rep = 70, risk_score = 79,
        risk_tier = Some ''Critical'' \<rparr>,
      \<lparr> ur_user_id = ''bob'', ur_total_requests = 1, ur_failure_rate = 0,
        ur_unique_ips = 1, ur_unique_countries = 1, ur_avg_latency = 100,
        avg_anomaly_score = None, score_failure = 0, score_anomaly = 50,
        score_geo = 0, score_cluster = 0, score_volume = 0,
        score_ip_rep = 0, risk_score = 25 / 2, risk_tier = Some ''Low'' \<rparr>]"

text \<open>
  Two users. The first has three sessions, which the isolation-forest table scores
  \<open>-1\<close>, \<open>0\<close> and \<open>2/5\<close>; the second has one session, for which the table has no row.
  The rows \<^verbatim>\<open>calculate_user_risk_scores\<close> returns with that table as the anomaly
  signal.
\<close>

definition join_table :: dataframe where
  "join_table = \<lparr> columns = all_columns,
     rows = [visit 0 ''alice'' ''10.0.0.1'' ''US'' ''s1'' False,
             visit 10 ''alice'' ''10.0.0.1'' ''US'' ''s2'' False,
             visit 20 ''alice'' ''10.0.0.1'' ''US'' ''s3'' False,
             visit 30 ''bob'' ''10.0.0.2'' ''US'' ''s4'' False] \<rparr>"

definition join_if_table :: if_table where
  "join_if_table = \<lparr> if_columns = [''session_id'', ''anomaly_score''],
                      if_rows = [\<lparr> if_session_id = ''s1'', if_anomaly_score = -1 \<rparr>,
                                 \<lparr> if_session_id = ''s2'', if_anomaly_score = 0 \<rparr>,
                                 \<lparr> if_session_id = ''s3'', if_anomaly_score = 2 / 5 \<rparr>] \<rparr>"

definition join_ml :: ml_results where
  "join_ml = \<lparr> isolation_forest = Some join_if_table, kmeans = None \<rparr>"

definition join_risks :: "user_risk list" where
  "join_risks =
     [\<lparr> ur_user_id = ''alice'', ur_total_requests = 3, ur_failure_rate = 0,
        ur_unique_ips = 1, ur_unique_countries = 1, ur_avg_latency = 100,
        avg_anomaly_score = Some (- 1 / 5), score_failure = 0,
        score_anomaly = 60, score_geo = 0, score_cluster = 0,
        score_volume = 70, score_ip_rep = 0, risk_score = 22,
        risk_tier = Some ''Low'' \<rparr>,
      \<lparr> ur_user_id = ''bob'', ur_total_requests = 1, ur_failure_rate = 0,
        ur_unique_ips = 1, ur_unique_countries = 1, ur_avg_latency = 100,
        avg_anomaly_score = None, score_failure = 0, score_anomaly = 50,
        score_geo = 0, score_cluster = 0, score_volume = 0,
        score_ip_rep = 0, risk_score = 25 / 2, risk_tier = Some ''Low'' \<rparr>]"

section \<open>Verified properties\<close>

subsection \<open>The mode of a non-empty column\<close>

text \<open>
  \<^verbatim>\<open>mode().iloc[0]\<close> is defined on every non-empty column of strings, so the fallback
  value in \<open>window_country\<close>, \<open>geo_row\<close> and \<open>primary_ip\<close> is taken only where
  the source takes it.
\<close>

lemma pd_mode_nonempty:
  assumes "xs \<noteq> []"
  shows "pd_mode xs \<noteq> []"
proof -
  let ?vs = "sort (remdups xs)"
  let ?cs = "map (count_list xs) ?vs"
  let ?m = "fold max ?cs 0"
  have set_vs: "set ?vs = set xs" by simp
  have m: "?m = Max (set (0 # ?cs))"
    by (simp only: Max.set_eq_fold)
  from assms obtain x where x: "x \<in> set xs" by (cases xs) auto
  then have "0 < count_list xs x" by (metis count_list_0_iff gr0I)
  moreover have "count_list xs x \<in> set (0 # ?cs)" using x set_vs by auto
  then have "count_list xs x \<le> Max (set (0 # ?cs))" by (intro Max_ge) auto
  ultimately have pos: "0 < ?m" using m by linarith
  have "Max (set (0 # ?cs)) \<in> set (0 # ?cs)" by (intro Max_in) auto
  with pos m have "?m \<in> set ?cs" by auto
  then obtain v where "v \<in> set ?vs" "count_list xs v = ?m" by auto
  then have "v \<in> set (filter (\<lambda>v. count_list xs v = ?m) ?vs)" by simp
  then show ?thesis
    unfolding pd_mode_def Let_def by (metis empty_iff list.set(1))
qed

lemma mode_iloc0_defined: "xs \<noteq> [] \<Longrightarrow> \<exists>v. mode_iloc0 xs = Some v"
  using pd_mode_nonempty [of xs] by (cases "pd_mode xs") (simp_all add: mode_iloc0_def)

subsection \<open>The aggregate risk index\<close>

lemma security_risk_index_closed:
  "security_risk_index cfg bf cs geo reps =
     min 100 (min (5 * int (length bf)) 30 + min (10 * int (length cs)) 30
              + min (3 * int (length geo)) 20 + min (2 * int (count_high_risk cfg reps)) 20)"
  by (cases reps) (simp_all add: security_risk_index_def Let_def count_high_risk_def mult.commute)

lemma run_security_analysis_risk_index:
  assumes "run_security_analysis cfg df = Inr r"
  shows "risk_index r = security_risk_index cfg (brute_force r) (credential_stuffing r)
           (geo_anomalies r) (ip_reputation r)"
  using assms
  by (auto simp: run_security_analysis_def bind_err_def Let_def split: sum.splits)

text \<open>
  Claim C5. Whenever the security pipeline returns a results bundle, its risk index is
  \<open>min(100, min(5B, 30) + min(10C, 30) + min(3G, 20) + min(2H, 20))\<close>, where \<open>B\<close>, \<open>C\<close>
  and \<open>G\<close> are the numbers of brute-force, credential-stuffing and geo-anomaly records of
  the bundle and \<open>H\<close> is the number of rows of its reputation table whose score is at
  least \<open>high_risk_score\<close>; the index lies between 0 and 100. The branch of the source
  that skips the last term for an empty reputation table adds nothing there, since then
  \<open>H = 0\<close>.
\<close>

theorem risk_index_formula:
  assumes "run_security_analysis cfg df = Inr r"
  shows "risk_index r =
           min 100 (min (5 * int (length (brute_force r))) 30
                    + min (10 * int (length (credential_stuffing r))) 30
                    + min (3 * int (length (geo_anomalies r))) 20
                    + min (2 * int (length (filter (\<lambda>x. high_risk_score cfg \<le> reputation_score x)
                                                 (ip_reputation r)))) 20)
         \<and> 0 \<le> risk_index r \<and> risk_index r \<le> 100"
proof -
  have "risk_index r = security_risk_index cfg (brute_force r) (credential_stuffing r)
           (geo_anomalies r) (ip_reputation r)"
    using assms by (rule run_security_analysis_risk_index)
  then show ?thesis
    by (simp add: security_risk_index_closed count_high_risk_def)
qed

theorem risk_index_formula_witness:
  "run_security_analysis SECURITY demo_table = Inr demo_results
   \<and> risk_index demo_results = min 100 (min (5 * 1) 30 + min (10 * 1) 30 + min (3 * 1) 20 + min (2 * 1) 20)
   \<and> risk_index demo_results = 20"
proof -
  have run: "run_security_analysis SECURITY demo_table = Inr demo_results"
    by code_simp
  have "risk_index demo_results = 20"
    by (simp add: demo_results_def)
  with run risk_index_formula [OF run] show ?thesis
    by simp
qed

subsection \<open>Credential stuffing: one record per address\<close>

lemma cs_scan_find:
  "cs_scan cfg df ip g (60 * credential_stuffing_window_min cfg) xs =
     (case List.find (cs_hit cfg g) xs of
        None \<Rightarrow> []
      | Some i \<Rightarrow> [cs_record df ip (timestamp (g ! i))
                     (cs_window g (60 * credential_stuffing_window_min cfg) (timestamp (g ! i)))])"
  by (induction xs) (simp_all add: cs_hit_def Let_def)

lemma find_first_sorted:
  fixes xs :: "nat list"
  assumes "List.find P xs = Some i" "sorted_wrt (<) xs"
  shows "i \<in> set xs \<and> P i \<and> (\<forall>j\<in>set xs. j < i \<longrightarrow> \<not> P j)"
  using assms
proof (induction xs)
  case Nil
  then show ?case by simp
next
  case (Cons x xs)
  then show ?case by (auto split: if_splits)
qed

lemma start_points_sorted: "sorted_wrt (<) (start_points n)"
proof -
  have "sorted_wrt (<) (map (\<lambda>k. k * s) [0..<m])" if "0 < s" for s m :: nat
    using that by (simp add: sorted_wrt_map sorted_wrt_iff_nth_less)
  then show ?thesis by (simp add: start_points_def Let_def)
qed

lemma start_points_bound: "i \<in> set (start_points n) \<Longrightarrow> i < n"
proof -
  assume "i \<in> set (start_points n)"
  define s where "s = max 1 (n div 20)"
  have s: "0 < s" by (simp add: s_def)
  from \<open>i \<in> set (start_points n)\<close> obtain k where k: "k < (n + s - 1) div s" "i = k * s"
    by (auto simp: start_points_def Let_def s_def)
  from k(1) have "Suc k * s \<le> ((n + s - 1) div s) * s"
    by (intro mult_le_mono1) simp
  also have "\<dots> \<le> n + s - 1"
    by (rule div_times_less_eq_dividend)
  finally have "Suc k * s \<le> n + s - 1" .
  then show ?thesis using k(2) s by simp
qed

lemma groupby_keys: "map fst (groupby key rs) = sort (remdups (map key rs))"
  by (simp add: groupby_def comp_def)

lemma groupby_snd: "(k, g) \<in> set (groupby key rs) \<Longrightarrow> g = filter (\<lambda>r. key r = k) rs \<and> k \<in> key ` set rs"
  by (auto simp: groupby_def)

lemma distinct_concat_groups:
  assumes "distinct (map fst gs)"
    and "\<And>g. g \<in> set gs \<Longrightarrow> length (f g) \<le> 1 \<and> (\<forall>d\<in>set (f g). ip d = fst g)"
  shows "distinct (map ip (concat (map f gs)))"
  using assms
proof (induction gs)
  case Nil
  then show ?case by simp
next
  case (Cons g gs)
  have one: "length (f g) \<le> 1" and key: "\<forall>d\<in>set (f g). ip d = fst g"
    using Cons.prems(2) by auto
  have d1: "distinct (map ip (f g))"
    using one by (cases "f g") (auto)
  have rest: "distinct (map ip (concat (map f gs)))"
    using Cons by auto
  have "ip ` set (f g) \<inter> ip ` set (concat (map f gs)) = {}"
  proof (rule ccontr)
    assume "\<not> ?thesis"
    then obtain d d' h where "d \<in> set (f g)" "h \<in> set gs" "d' \<in> set (f h)" "ip d = ip d'"
      by auto
    then have "fst g = fst h" using key Cons.prems(2) by (metis list.set_intros(2))
    with \<open>h \<in> set gs\<close> Cons.prems(1) show False by force
  qed
  with d1 rest show ?case by simp
qed

lemma cs_scan_props:
  "length (cs_scan cfg df ip g W xs) \<le> 1
   \<and> (\<forall>d\<in>set (cs_scan cfg df ip g W xs). cs_ip_address d = ip \<and> cs_severity d = ''CRITICAL'')"
  by (induction xs) (simp_all add: Let_def cs_record_def)

lemma cs_group_props:
  "length (cs_group cfg df ig) \<le> 1
   \<and> (\<forall>d\<in>set (cs_group cfg df ig). cs_ip_address d = fst ig \<and> cs_severity d = ''CRITICAL'')"
  unfolding cs_group_def Let_def by (rule cs_scan_props)

lemma cs_group_find:
  "cs_group cfg df (ip, g) =
     (case List.find (cs_hit cfg (sort_key timestamp g)) (start_points (length (sort_key timestamp g))) of
        None \<Rightarrow> []
      | Some i \<Rightarrow> [cs_record df ip (timestamp (sort_key timestamp g ! i))
                     (cs_window (sort_key timestamp g) (60 * credential_stuffing_window_min cfg)
                        (timestamp (sort_key timestamp g ! i)))])"
  by (simp only: cs_group_def Let_def fst_conv snd_conv cs_scan_find)

lemma cs_group_emits:
  assumes "i \<in> set (start_points (length (sort_key timestamp g)))"
    and "cs_hit cfg (sort_key timestamp g) i"
  shows "cs_group cfg df (ip, g) \<noteq> []"
proof -
  from assms have "List.find (cs_hit cfg (sort_key timestamp g))
                     (start_points (length (sort_key timestamp g))) \<noteq> None"
    by (auto simp: find_None_iff)
  then show ?thesis
    by (simp only: cs_group_find) (auto split: option.splits)
qed


lemma start_points_iff:
  "i \<in> set (start_points n) \<longleftrightarrow> i < n \<and> i mod max 1 (n div 20) = 0"
proof -
  define s where "s = max 1 (n div 20)"
  have s: "0 < s" by (simp add: s_def)
  have sp: "start_points n = map (\<lambda>k. k * s) [0..<(n + s - 1) div s]"
    by (simp add: start_points_def Let_def s_def)
  show ?thesis
  proof
    assume mem: "i \<in> set (start_points n)"
    then obtain k where "i = k * s" by (auto simp: sp)
    with start_points_bound [OF mem] show "i < n \<and> i mod max 1 (n div 20) = 0"
      by (simp add: s_def)
  next
    assume a: "i < n \<and> i mod max 1 (n div 20) = 0"
    then have "i mod s = 0" by (simp add: s_def)
    then have i: "i = (i div s) * s" by (metis add.right_neutral div_mult_mod_eq)
    from a have "i < n" by simp
    with s have "i + s \<le> n + s - 1" by arith
    then have "(i div s + 1) * s \<le> n + s - 1" using i by (simp add: algebra_simps)
    then have "i div s + 1 \<le> (n + s - 1) div s"
      using s by (simp add: less_eq_div_iff_mult_less_eq)
    then have "i div s < (n + s - 1) div s" by simp
    with i show "i \<in> set (start_points n)"
      unfolding sp by (metis (mono_tags, lifting) atLeast0LessThan image_eqI lessThan_iff set_map set_upt)
  qed
qed

lemma unique_from_set: "set (unique_from seen xs) = set xs - set seen"
  by (induction xs arbitrary: seen) auto

lemma unique_from_distinct: "distinct (unique_from seen xs)"
  by (induction xs arbitrary: seen) (auto simp: unique_from_set)

lemma nunique_card: "nunique xs = card (set xs)"
proof -
  have "card (set (pd_unique xs)) = length (pd_unique xs)"
    unfolding pd_unique_def by (intro distinct_card unique_from_distinct)
  then show ?thesis by (simp add: nunique_def pd_unique_def unique_from_set)
qed

lemma map_insort_key: "map f (insort_key f x xs) = insort (f x) (map f xs)"
  by (induction xs) auto

lemma map_sort_key: "map f (sort_key f xs) = sort (map f xs)"
  by (induction xs) (simp_all add: map_insort_key)


lemma cs_group_record:
  assumes "d \<in> set (cs_group cfg df (ip, g))"
  shows "\<exists>i\<in>set (start_points (length g)).
           cs_hit cfg (sort_key timestamp g) i
         \<and> (\<forall>j\<in>set (start_points (length g)). j < i \<longrightarrow> \<not> cs_hit cfg (sort_key timestamp g) j)
         \<and> d = cs_record df ip (timestamp (sort_key timestamp g ! i))
                 (cs_window (sort_key timestamp g) (60 * credential_stuffing_window_min cfg)
                    (timestamp (sort_key timestamp g ! i)))"
proof (cases "List.find (cs_hit cfg (sort_key timestamp g)) (start_points (length (sort_key timestamp g)))")
  case None
  with assms show ?thesis by (simp only: cs_group_find) simp
next
  case (Some i)
  with assms have "d = cs_record df ip (timestamp (sort_key timestamp g ! i))
                 (cs_window (sort_key timestamp g) (60 * credential_stuffing_window_min cfg)
                    (timestamp (sort_key timestamp g ! i)))"
    by (simp only: cs_group_find) simp
  with find_first_sorted [OF Some start_points_sorted] show ?thesis
    by (simp only: length_sort) blast
qed

lemma cs_window_users:
  "int (nunique (map user_id (cs_window (sort_key timestamp fs) W t)))
     = int (card (user_id ` {e \<in> set fs. t \<le> timestamp e \<and> timestamp e \<le> t + W}))"
proof -
  have "set (map user_id (cs_window (sort_key timestamp fs) W t))
          = user_id ` {e \<in> set fs. t \<le> timestamp e \<and> timestamp e \<le> t + W}"
    by (auto simp: cs_window_def)
  then show ?thesis by (simp only: nunique_card)
qed

lemma cs_window_length:
  "length (cs_window (sort_key timestamp fs) W t)
     = length (filter (\<lambda>e. t \<le> timestamp e \<and> timestamp e \<le> t + W) fs)"
  by (simp add: cs_window_def filter_sort)

lemma sorted_times_nth:
  "i < length fs \<Longrightarrow> timestamp (sort_key timestamp fs ! i) = sort (map timestamp fs) ! i"
  by (metis length_sort map_sort_key nth_map)

lemma cs_hit_explicit:
  "cs_hit cfg (sort_key timestamp fs) i \<longleftrightarrow>
     credential_stuffing_threshold cfg
       \<le> int (card (user_id ` {e \<in> set fs. timestamp (sort_key timestamp fs ! i) \<le> timestamp e
                                   \<and> timestamp e \<le> timestamp (sort_key timestamp fs ! i)
                                                     + 60 * credential_stuffing_window_min cfg}))"
  by (simp only: cs_hit_def cs_window_users)

lemma cs_record_explicit:
  assumes d: "d \<in> set (cs_group cfg df (ip, fs))"
  shows "cs_ip_address d = ip \<and> cs_severity d = ''CRITICAL''
       \<and> (\<exists>i<length fs. i mod max 1 (length fs div 20) = 0
             \<and> cs_timestamp d = sort (map timestamp fs) ! i
             \<and> credential_stuffing_threshold cfg \<le> cs_unique_users_targeted d
             \<and> cs_unique_users_targeted d
                 = int (card (user_id ` {e \<in> set fs. sort (map timestamp fs) ! i \<le> timestamp e
                      \<and> timestamp e \<le> sort (map timestamp fs) ! i + 60 * credential_stuffing_window_min cfg}))
             \<and> cs_total_attempts d
                 = int (length (filter (\<lambda>e. sort (map timestamp fs) ! i \<le> timestamp e
                      \<and> timestamp e \<le> sort (map timestamp fs) ! i + 60 * credential_stuffing_window_min cfg) fs))
             \<and> (\<forall>j<i. j mod max 1 (length fs div 20) = 0 \<longrightarrow>
                   int (card (user_id ` {e \<in> set fs. sort (map timestamp fs) ! j \<le> timestamp e
                      \<and> timestamp e \<le> sort (map timestamp fs) ! j + 60 * credential_stuffing_window_min cfg}))
                     < credential_stuffing_threshold cfg))"
proof -
  let ?gs = "sort_key timestamp fs"
  let ?W = "60 * credential_stuffing_window_min cfg"
  let ?s = "max 1 (length fs div 20)"
  let ?ts = "sort (map timestamp fs)"
  from cs_group_record [OF d] obtain i where i: "i \<in> set (start_points (length fs))"
    and hit: "cs_hit cfg ?gs i"
    and first: "\<forall>j\<in>set (start_points (length fs)). j < i \<longrightarrow> \<not> cs_hit cfg ?gs j"
    and rec: "d = cs_record df ip (timestamp (?gs ! i)) (cs_window ?gs ?W (timestamp (?gs ! i)))"
    by blast
  from i have il: "i < length fs" and im: "i mod ?s = 0"
    by (simp_all add: start_points_iff)
  have ti: "timestamp (?gs ! i) = ?ts ! i"
    using il by (rule sorted_times_nth)
  have ts: "cs_timestamp d = ?ts ! i"
    by (simp add: rec cs_record_def ti)
  have uu: "cs_unique_users_targeted d
              = int (card (user_id ` {e \<in> set fs. ?ts ! i \<le> timestamp e \<and> timestamp e \<le> ?ts ! i + ?W}))"
    unfolding rec by (simp add: cs_record_def cs_window_users ti)
  have thr: "credential_stuffing_threshold cfg \<le> cs_unique_users_targeted d"
    using hit unfolding uu cs_hit_explicit ti .
  have ta: "cs_total_attempts d
              = int (length (filter (\<lambda>e. ?ts ! i \<le> timestamp e \<and> timestamp e \<le> ?ts ! i + ?W) fs))"
    unfolding rec by (simp add: cs_record_def cs_window_length ti)
  have before: "int (card (user_id ` {e \<in> set fs. ?ts ! j \<le> timestamp e \<and> timestamp e \<le> ?ts ! j + ?W}))
                  < credential_stuffing_threshold cfg"
    if "j < i" "j mod ?s = 0" for j
  proof -
    from that il have jl: "j < length fs" by simp
    with that have "j \<in> set (start_points (length fs))"
      by (simp add: start_points_iff)
    with first that have "\<not> cs_hit cfg ?gs j" by blast
    then show ?thesis
      unfolding cs_hit_explicit sorted_times_nth [OF jl] by simp
  qed
  have id: "cs_ip_address d = ip" "cs_severity d = ''CRITICAL''"
    by (simp_all add: rec cs_record_def)
  have ex: "\<exists>i<length fs. i mod ?s = 0
             \<and> cs_timestamp d = ?ts ! i
             \<and> credential_stuffing_threshold cfg \<le> cs_unique_users_targeted d
             \<and> cs_unique_users_targeted d
                 = int (card (user_id ` {e \<in> set fs. ?ts ! i \<le> timestamp e \<and> timestamp e \<le> ?ts ! i + ?W}))
             \<and> cs_total_attempts d
                 = int (length (filter (\<lambda>e. ?ts ! i \<le> timestamp e \<and> timestamp e \<le> ?ts ! i + ?W) fs))
             \<and> (\<forall>j<i. j mod ?s = 0 \<longrightarrow>
                   int (card (user_id ` {e \<in> set fs. ?ts ! j \<le> timestamp e \<and> timestamp e \<le> ?ts ! j + ?W}))
                     < credential_stuffing_threshold cfg)"
  proof (intro exI [of _ i] conjI allI impI)
    show "i < length fs" by (rule il)
    show "i mod ?s = 0" by (rule im)
    show "cs_timestamp d = ?ts ! i" by (rule ts)
    show "credential_stuffing_threshold cfg \<le> cs_unique_users_targeted d" by (rule thr)
    show "cs_unique_users_targeted d
            = int (card (user_id ` {e \<in> set fs. ?ts ! i \<le> timestamp e \<and> timestamp e \<le> ?ts ! i + ?W}))"
      by (rule uu)
    show "cs_total_attempts d
            = int (length (filter (\<lambda>e. ?ts ! i \<le> timestamp e \<and> timestamp e \<le> ?ts ! i + ?W) fs))"
      by (rule ta)
    show "int (card (user_id ` {e \<in> set fs. ?ts ! j \<le> timestamp e \<and> timestamp e \<le> ?ts ! j + ?W}))
            < credential_stuffing_threshold cfg" if "j < i" "j mod ?s = 0" for j
      using that by (rule before)
  qed
  show ?thesis
    by (intro conjI id ex)
qed

lemma cs_group_emits_explicit:
  assumes "i < length fs" and "i mod max 1 (length fs div 20) = 0"
    and "credential_stuffing_threshold cfg
           \<le> int (card (user_id ` {e \<in> set fs. sort (map timestamp fs) ! i \<le> timestamp e
                \<and> timestamp e \<le> sort (map timestamp fs) ! i + 60 * credential_stuffing_window_min cfg}))"
  shows "cs_group cfg df (ip, fs) \<noteq> []"
proof -
  from assms(1,2) have "i \<in> set (start_points (length (sort_key timestamp fs)))"
    by (simp add: start_points_iff)
  moreover have "cs_hit cfg (sort_key timestamp fs) i"
    using assms(3) unfolding cs_hit_explicit sorted_times_nth [OF assms(1)] .
  ultimately show ?thesis by (rule cs_group_emits)
qed

text \<open>
  Claim C8. In a run of the credential-stuffing detector that returns records: no two
  records share an address, and every record has severity \<open>CRITICAL\<close>. Let \<open>fs\<close> be the
  failure rows of a record's address, \<open>ts\<close> their timestamps in ascending order, \<open>W\<close> the
  window length in seconds and \<open>s\<close> the stride \<open>max 1 (length fs div 20)\<close>. Then the
  record carries the time \<open>ts ! i\<close> of an evaluated start row \<open>i\<close> (a multiple of the
  stride), its count of users is the number of distinct users among the rows of \<open>fs\<close>
  whose time \<open>t\<close> satisfies \<open>ts ! i \<le> t \<le> ts ! i + W\<close>, both ends included, that number
  is at least \<open>credential_stuffing_threshold\<close>, its count of attempts is the number of
  those rows, and at every earlier evaluated start row the same closed window holds
  fewer distinct users than the threshold. Conversely, when the three columns the
  detector needs are present, every address with an evaluated start row whose closed
  window reaches the threshold gets a record.
\<close>

theorem credential_stuffing_first_window:
  assumes "detect_credential_stuffing cfg df = Inr ds"
  shows "distinct (map cs_ip_address ds)
       \<and> (\<forall>d\<in>set ds. cs_severity d = ''CRITICAL'')
       \<and> (\<forall>d\<in>set ds. \<forall>fs ts W s.
             fs = filter (\<lambda>e. is_failure e \<and> ip_address e = cs_ip_address d) (rows df)
           \<and> ts = sort (map timestamp fs)
           \<and> W = 60 * credential_stuffing_window_min cfg
           \<and> s = max 1 (length fs div 20)
           \<longrightarrow> (\<exists>i<length fs. i mod s = 0
                 \<and> cs_timestamp d = ts ! i
                 \<and> credential_stuffing_threshold cfg \<le> cs_unique_users_targeted d
                 \<and> cs_unique_users_targeted d
                     = int (card (user_id ` {e \<in> set fs. ts ! i \<le> timestamp e \<and> timestamp e \<le> ts ! i + W}))
                 \<and> cs_total_attempts d
                     = int (length (filter (\<lambda>e. ts ! i \<le> timestamp e \<and> timestamp e \<le> ts ! i + W) fs))
                 \<and> (\<forall>j<i. j mod s = 0 \<longrightarrow>
                       int (card (user_id ` {e \<in> set fs. ts ! j \<le> timestamp e \<and> timestamp e \<le> ts ! j + W}))
                         < credential_stuffing_threshold cfg)))
       \<and> (has_col df ''timestamp'' \<and> has_col df ''ip_address'' \<and> has_col df ''user_id''
            \<longrightarrow> (\<forall>ip fs ts W s.
                   fs = filter (\<lambda>e. is_failure e \<and> ip_address e = ip) (rows df)
                 \<and> ts = sort (map timestamp fs)
                 \<and> W = 60 * credential_stuffing_window_min cfg
                 \<and> s = max 1 (length fs div 20)
                 \<and> (\<exists>i<length fs. i mod s = 0
                       \<and> credential_stuffing_threshold cfg
                           \<le> int (card (user_id ` {e \<in> set fs. ts ! i \<le> timestamp e \<and> timestamp e \<le> ts ! i + W})))
                 \<longrightarrow> (\<exists>d\<in>set ds. cs_ip_address d = ip)))"
proof -
  let ?fl = "filter is_failure (rows df)"
  let ?gs = "groupby ip_address ?fl"
  have grp: "g = filter (\<lambda>e. is_failure e \<and> ip_address e = ip) (rows df)"
    if "(ip, g) \<in> set ?gs" for ip g
    using groupby_snd [OF that] by simp
  have keys: "distinct (map fst ?gs)"
    by (simp add: groupby_keys)
  have ds_cases: "ds = [] \<or> ds = concat (map (cs_group cfg df) ?gs)"
    using assms by (auto simp: detect_credential_stuffing_def Let_def split: if_splits)
  have one: "distinct (map cs_ip_address ds)"
  proof -
    have "distinct (map cs_ip_address (concat (map (cs_group cfg df) ?gs)))"
      using keys cs_group_props by (intro distinct_concat_groups) auto
    with ds_cases show ?thesis by auto
  qed
  have crit: "\<forall>d\<in>set ds. cs_severity d = ''CRITICAL''"
    using ds_cases cs_group_props by auto
  have first: "\<exists>i<length fs. i mod s = 0
                 \<and> cs_timestamp d = ts ! i
                 \<and> credential_stuffing_threshold cfg \<le> cs_unique_users_targeted d
                 \<and> cs_unique_users_targeted d
                     = int (card (user_id ` {e \<in> set fs. ts ! i \<le> timestamp e \<and> timestamp e \<le> ts ! i + W}))
                 \<and> cs_total_attempts d
                     = int (length (filter (\<lambda>e. ts ! i \<le> timestamp e \<and> timestamp e \<le> ts ! i + W) fs))
                 \<and> (\<forall>j<i. j mod s = 0 \<longrightarrow>
                       int (card (user_id ` {e \<in> set fs. ts ! j \<le> timestamp e \<and> timestamp e \<le> ts ! j + W}))
                         < credential_stuffing_threshold cfg)"
    if dm: "d \<in> set ds"
      and eqs: "fs = filter (\<lambda>e. is_failure e \<and> ip_address e = cs_ip_address d) (rows df)
           \<and> ts = sort (map timestamp fs)
           \<and> W = 60 * credential_stuffing_window_min cfg
           \<and> s = max 1 (length fs div 20)"
    for d fs ts W s
  proof -
    from dm ds_cases have "d \<in> set (concat (map (cs_group cfg df) ?gs))" by auto
    then obtain ip g where g: "(ip, g) \<in> set ?gs" and d: "d \<in> set (cs_group cfg df (ip, g))"
      by auto
    from cs_record_explicit [OF d] have ip: "cs_ip_address d = ip" by simp
    from grp [OF g] ip eqs have gf: "g = fs" by simp
    from eqs have e1: "ts = sort (map timestamp fs)" "W = 60 * credential_stuffing_window_min cfg"
      "s = max 1 (length fs div 20)" by simp_all
    note rec = cs_record_explicit [OF d, unfolded gf]
    show ?thesis
      unfolding e1 using rec by (elim conjE)
  qed
  have emits: "\<exists>d\<in>set ds. cs_ip_address d = ip"
    if cols: "has_col df ''timestamp'' \<and> has_col df ''ip_address'' \<and> has_col df ''user_id''"
      and eqs: "fs = filter (\<lambda>e. is_failure e \<and> ip_address e = ip) (rows df)
                 \<and> ts = sort (map timestamp fs)
                 \<and> W = 60 * credential_stuffing_window_min cfg
                 \<and> s = max 1 (length fs div 20)
                 \<and> (\<exists>i<length fs. i mod s = 0
                       \<and> credential_stuffing_threshold cfg
                           \<le> int (card (user_id ` {e \<in> set fs. ts ! i \<le> timestamp e \<and> timestamp e \<le> ts ! i + W})))"
    for ip fs ts W s
  proof -
    from eqs have e1: "ts = sort (map timestamp fs)" "W = 60 * credential_stuffing_window_min cfg"
      "s = max 1 (length fs div 20)" by simp_all
    from eqs have "\<exists>i<length fs. i mod s = 0
                       \<and> credential_stuffing_threshold cfg
                           \<le> int (card (user_id ` {e \<in> set fs. ts ! i \<le> timestamp e \<and> timestamp e \<le> ts ! i + W}))"
      by (elim conjE)
    then obtain i where i: "i < length fs" "i mod max 1 (length fs div 20) = 0"
      and h: "credential_stuffing_threshold cfg
           \<le> int (card (user_id ` {e \<in> set fs. sort (map timestamp fs) ! i \<le> timestamp e
                \<and> timestamp e \<le> sort (map timestamp fs) ! i + 60 * credential_stuffing_window_min cfg}))"
      unfolding e1 by (elim exE conjE)
    from i(1) have "fs \<noteq> []" by auto
    then obtain e where e: "e \<in> set fs" by (cases fs) auto
    with eqs have e2: "e \<in> set ?fl" "ip_address e = ip" by simp_all
    then have fl: "?fl \<noteq> []" by (metis empty_iff list.set(1))
    have fseq: "fs = filter (\<lambda>r. ip_address r = ip) ?fl"
      using eqs by (simp add: conj_commute)
    from e2 have "ip \<in> ip_address ` set ?fl" by blast
    then have mem: "(ip, fs) \<in> set ?gs"
      unfolding fseq by (auto simp: groupby_def)
    have "cs_group cfg df (ip, fs) \<noteq> []"
      using i h by (rule cs_group_emits_explicit)
    then obtain d where d: "d \<in> set (cs_group cfg df (ip, fs))"
      by (cases "cs_group cfg df (ip, fs)") auto
    from cs_group_props [of cfg df "(ip, fs)"] d have "cs_ip_address d = ip" by simp
    moreover have "ds = concat (map (cs_group cfg df) ?gs)"
      using assms cols fl
      by (auto simp: detect_credential_stuffing_def Let_def split: if_splits)
    ultimately show ?thesis using mem d by auto
  qed
  show ?thesis
  proof (intro conjI ballI allI impI)
    show "distinct (map cs_ip_address ds)" by (rule one)
    show "cs_severity d = ''CRITICAL''" if "d \<in> set ds" for d
      using crit that by (rule bspec)
  next
    fix d fs ts W s
    assume "d \<in> set ds"
      and "fs = filter (\<lambda>e. is_failure e \<and> ip_address e = cs_ip_address d) (rows df)
           \<and> ts = sort (map timestamp fs)
           \<and> W = 60 * credential_stuffing_window_min cfg
           \<and> s = max 1 (length fs div 20)"
    then show "\<exists>i<length fs. i mod s = 0
                 \<and> cs_timestamp d = ts ! i
                 \<and> credential_stuffing_threshold cfg \<le> cs_unique_users_targeted d
                 \<and> cs_unique_users_targeted d
                     = int (card (user_id ` {e \<in> set fs. ts ! i \<le> timestamp e \<and> timestamp e \<le> ts ! i + W}))
                 \<and> cs_total_attempts d
                     = int (length (filter (\<lambda>e. ts ! i \<le> timestamp e \<and> timestamp e \<le> ts ! i + W) fs))
                 \<and> (\<forall>j<i. j mod s = 0 \<longrightarrow>
                       int (card (user_id ` {e \<in> set fs. ts ! j \<le> timestamp e \<and> timestamp e \<le> ts ! j + W}))
                         < credential_stuffing_threshold cfg)"
      by (rule first)
  next
    fix ip fs ts W s
    assume "has_col df ''timestamp'' \<and> has_col df ''ip_address'' \<and> has_col df ''user_id''"
      and "fs = filter (\<lambda>e. is_failure e \<and> ip_address e = ip) (rows df)
                 \<and> ts = sort (map timestamp fs)
                 \<and> W = 60 * credential_stuffing_window_min cfg
                 \<and> s = max 1 (length fs div 20)
                 \<and> (\<exists>i<length fs. i mod s = 0
                       \<and> credential_stuffing_threshold cfg
                           \<le> int (card (user_id ` {e \<in> set fs. ts ! i \<le> timestamp e \<and> timestamp e \<le> ts ! i + W})))"
    then show "\<exists>d\<in>set ds. cs_ip_address d = ip"
      by (rule emits)
  qed
qed

theorem credential_stuffing_first_window_witness:
  "detect_credential_stuffing SECURITY cs_table = Inr cs_table_detections
   \<and> distinct (map cs_ip_address cs_table_detections)
   \<and> map cs_severity cs_table_detections = [''CRITICAL'']
   \<and> map cs_timestamp cs_table_detections = [400]
   \<and> map cs_unique_users_targeted cs_table_detections = [3]
   \<and> map timestamp (filter (\<lambda>e. is_failure e \<and> ip_address e = ''10.0.0.1'') (rows cs_table))
       = [0, 400, 500, 700]
   \<and> map user_id (filter (\<lambda>e. 0 \<le> timestamp e \<and> timestamp e \<le> 0 + 300)
                     (filter (\<lambda>e. is_failure e \<and> ip_address e = ''10.0.0.1'') (rows cs_table)))
       = [''a'']
   \<and> map user_id (filter (\<lambda>e. 400 \<le> timestamp e \<and> timestamp e \<le> 400 + 300)
                     (filter (\<lambda>e. is_failure e \<and> ip_address e = ''10.0.0.1'') (rows cs_table)))
       = [''b'', ''c'', ''d'']"
proof -
  have run: "detect_credential_stuffing SECURITY cs_table = Inr cs_table_detections"
    by code_simp
  have rows: "map timestamp (filter (\<lambda>e. is_failure e \<and> ip_address e = ''10.0.0.1'') (rows cs_table))
       = [0, 400, 500, 700]"
    "map user_id (filter (\<lambda>e. 0 \<le> timestamp e \<and> timestamp e \<le> 0 + 300)
                     (filter (\<lambda>e. is_failure e \<and> ip_address e = ''10.0.0.1'') (rows cs_table)))
       = [''a'']"
    "map user_id (filter (\<lambda>e. 400 \<le> timestamp e \<and> timestamp e \<le> 400 + 300)
                     (filter (\<lambda>e. is_failure e \<and> ip_address e = ''10.0.0.1'') (rows cs_table)))
       = [''b'', ''c'', ''d'']"
    by code_simp+
  note main = credential_stuffing_first_window [OF run]
  from main have "distinct (map cs_ip_address cs_table_detections)"
    by (rule conjunct1)
  moreover from main have "\<forall>d\<in>set cs_table_detections. cs_severity d = ''CRITICAL''"
    by (elim conjE)
  ultimately have "distinct (map cs_ip_address cs_table_detections)"
    and "map cs_severity cs_table_detections = [''CRITICAL'']"
    by (simp_all add: cs_table_detections_def)
  moreover have "map cs_timestamp cs_table_detections = [400]"
    "map cs_unique_users_targeted cs_table_detections = [3]"
    by (simp_all add: cs_table_detections_def)
  ultimately show ?thesis using run rows by (intro conjI)
qed

subsection \<open>Brute force: window grid and window subset\<close>


















text \<open>
  Claim C4. The claim takes the window-scoped subset of a detection to be the events of
  the half-open interval from the bucket start to the bucket start plus the window. The
  detector slices \<^verbatim>\<open>group.loc[ts:ts + window]\<close>, which keeps the right end: on
  \<open>boundary_table\<close> the bucket starting at 0 counts five attempts, all against user \<open>a\<close>, with
  country mode \<open>DE\<close>, while the record lists the user \<open>z\<close> of the event at second 600 and
  takes the country \<open>US\<close> that this event brings into the majority.
\<close>

theorem brute_force_window_keeps_right_end:
  "detect_brute_force SECURITY boundary_table = Inr boundary_detections
   \<and> map bf_attempt_count boundary_detections = [5]
   \<and> map bf_targeted_users boundary_detections = [[''a'', ''z'']]
   \<and> map bf_country boundary_detections = [''US'']
   \<and> map user_id (filter (\<lambda>e. 0 \<le> timestamp e \<and> timestamp e < 600) (rows boundary_table))
       = [''a'', ''a'', ''a'', ''a'', ''a'']
   \<and> mode_iloc0 (map country (filter (\<lambda>e. 0 \<le> timestamp e \<and> timestamp e < 600) (rows boundary_table)))
       = Some ''DE''"
proof -
  have "detect_brute_force SECURITY boundary_table = Inr boundary_detections"
    by code_simp
  moreover have "map user_id (filter (\<lambda>e. 0 \<le> timestamp e \<and> timestamp e < 600) (rows boundary_table))
       = [''a'', ''a'', ''a'', ''a'', ''a'']"
    by code_simp
  moreover have "mode_iloc0 (map country (filter (\<lambda>e. 0 \<le> timestamp e \<and> timestamp e < 600) (rows boundary_table)))
       = Some ''DE''"
    by code_simp
  ultimately show ?thesis
    by (simp add: boundary_detections_def)
qed

theorem brute_force_window_keeps_right_end_witness:
  "detect_brute_force SECURITY boundary_table = Inr boundary_detections
   \<and> map timestamp (rows boundary_table) = [0, 10, 20, 30, 40, 600]
   \<and> map user_id (rows boundary_table) = [''a'', ''a'', ''a'', ''a'', ''a'', ''z'']"
  using brute_force_window_keeps_right_end
  by (simp add: boundary_table_def login_failure_def)

subsection \<open>Absent columns\<close>

text \<open>
  Every detector returns the empty result when a column named in its opening guard is
  absent, whatever else the table holds.
\<close>

lemma detectors_empty_without_guarded_column:
  "(\<not> has_col df ''timestamp'' \<or> \<not> has_col df ''ip_address'' \<longrightarrow> detect_brute_force cfg df = Inr [])
   \<and> (\<not> has_col df ''timestamp'' \<or> \<not> has_col df ''ip_address'' \<or> \<not> has_col df ''user_id''
        \<longrightarrow> detect_credential_stuffing cfg df = Inr [])
   \<and> (\<not> has_col df ''ip_address'' \<longrightarrow> calculate_ip_reputation df = Inr [])
   \<and> (\<not> has_col df ''user_id'' \<or> \<not> has_col df ''country'' \<longrightarrow> detect_geo_anomalies df = Inr [])
   \<and> (\<not> has_col df (col_name metric_col) \<or> \<not> has_col df (col_name time_col)
        \<longrightarrow> detect_spikes ml df metric_col time_col threshold = Inr [])
   \<and> (\<not> has_col df ''is_failure'' \<or> \<not> has_col df (col_name time_col)
        \<longrightarrow> detect_error_rate_spikes ml df time_col = Inr [])"
  by (simp add: detect_brute_force_def detect_credential_stuffing_def calculate_ip_reputation_def
      detect_geo_anomalies_def detect_spikes_def detect_error_rate_spikes_def)

text \<open>
  Claim C6. The claim asks every detector to return an empty result when a column it
  requires is absent. The brute-force detector, the credential-stuffing detector and the
  reputation scorer read \<^verbatim>\<open>is_failure\<close> without a guard (lines 21, 69 and 115 of
  \<^verbatim>\<open>security.py\<close>), where the error-rate detector and line 229 of the same file test
  for the column first: on a table that has their guarded columns and lacks
  \<^verbatim>\<open>is_failure\<close> they raise \<open>KeyError\<close>, and the security pipeline fails with them.
\<close>

theorem missing_is_failure_raises:
  "detect_brute_force SECURITY unflagged_table = Inl (KeyError ''is_failure'')
   \<and> detect_credential_stuffing SECURITY unflagged_table = Inl (KeyError ''is_failure'')
   \<and> calculate_ip_reputation unflagged_table = Inl (KeyError ''is_failure'')
   \<and> run_security_analysis SECURITY unflagged_table = Inl (KeyError ''is_failure'')"
  by code_simp

theorem missing_is_failure_raises_witness:
  "has_col unflagged_table ''timestamp'' \<and> has_col unflagged_table ''ip_address''
   \<and> has_col unflagged_table ''user_id'' \<and> \<not> has_col unflagged_table ''is_failure''
   \<and> run_security_analysis SECURITY unflagged_table = Inl (KeyError ''is_failure'')"
  using missing_is_failure_raises
  by (simp add: unflagged_table_def has_col_def)

subsection \<open>Alert identifiers\<close>

lemma numbered_append: "numbered alerts \<Longrightarrow> numbered (append_alert p t d s c src alerts)"
  by (simp add: numbered_def append_alert_def)

lemma numbered_bf: "numbered alerts \<Longrightarrow> numbered (foldl bf_alert alerts xs)"
  by (induction xs arbitrary: alerts) (simp_all add: bf_alert_def numbered_append)

lemma numbered_cs: "numbered alerts \<Longrightarrow> numbered (foldl cs_alert alerts xs)"
  by (induction xs arbitrary: alerts) (simp_all add: cs_alert_def numbered_append)

lemma numbered_sla: "numbered alerts \<Longrightarrow> numbered (foldl sla_alert alerts xs)"
  by (induction xs arbitrary: alerts) (simp_all add: sla_alert_def numbered_append)

lemma numbered_bn: "numbered alerts \<Longrightarrow> numbered (foldl bn_alert alerts xs)"
  by (induction xs arbitrary: alerts) (simp_all add: bn_alert_def numbered_append)

lemma numbered_security: "numbered alerts \<Longrightarrow> numbered (security_alerts s alerts)"
  by (cases s) (simp_all add: security_alerts_def Let_def numbered_append numbered_bf numbered_cs)

lemma numbered_performance: "numbered alerts \<Longrightarrow> numbered (performance_alerts p alerts)"
  by (cases p) (simp_all add: performance_alerts_def numbered_sla numbered_bn)

lemma numbered_anomaly: "numbered alerts \<Longrightarrow> numbered (anomaly_alerts a alerts)"
  by (cases a) (simp_all add: anomaly_alerts_def Let_def numbered_append)

lemma numbered_risk: "numbered alerts \<Longrightarrow> numbered (risk_alerts r alerts)"
  by (cases r) (simp_all add: risk_alerts_def numbered_append)

lemma numbered_collect: "numbered (collect_alerts s p a r)"
  unfolding collect_alerts_def
  by (intro numbered_risk numbered_anomaly numbered_performance numbered_security)
     (simp add: numbered_def)

text \<open>
  Claim C9, as amended. The number in an alert's identifier is the alert's position in
  the order of generation, counted over all alerts whatever their prefix: the alerts as
  appended carry 1, 2, 3, ... up to their count; the returned list is that list sorted
  stably by severity, so its numbers are pairwise distinct and are exactly 1 up to the
  length of the list. The numbering does not restart for a new prefix.
\<close>

theorem alert_ids_global_sequence:
  "map alert_seq (collect_alerts s p a r) = [1..<Suc (length (collect_alerts s p a r))]
   \<and> generate_alerts s p a r
       = sort_key (\<lambda>x. severity_order (alert_severity x)) (collect_alerts s p a r)
   \<and> distinct (map alert_seq (generate_alerts s p a r))
   \<and> set (map alert_seq (generate_alerts s p a r)) = {1..length (generate_alerts s p a r)}"
proof -
  let ?c = "collect_alerts s p a r"
  have n: "map alert_seq ?c = [1..<Suc (length ?c)]"
    using numbered_collect by (simp add: numbered_def)
  have g: "generate_alerts s p a r = sort_key (\<lambda>x. severity_order (alert_severity x)) ?c"
    by (simp add: generate_alerts_def)
  have dc: "distinct (map alert_seq ?c)"
    unfolding n by simp
  then have "distinct ?c" and "inj_on alert_seq (set ?c)"
    by (simp_all add: distinct_map)
  then have d: "distinct (map alert_seq (generate_alerts s p a r))"
    unfolding g by (simp add: distinct_map)
  have "set (map alert_seq (generate_alerts s p a r)) = set (map alert_seq ?c)"
    unfolding g by simp
  also have "\<dots> = {1..length ?c}"
    unfolding n by auto
  finally have st: "set (map alert_seq (generate_alerts s p a r)) = {1..length (generate_alerts s p a r)}"
    by (simp add: g)
  from n g d st show ?thesis by blast
qed

text \<open>
  Claim C9 as stated fails: with one brute-force record, one credential-stuffing record
  and one high-risk address, the alerts with prefixes \<open>SEC-CS\<close> and \<open>SEC-IP\<close> are
  numbered 2 and 3, where numbering per prefix would give each the number 1.
\<close>

theorem alert_ids_per_prefix_counterexample:
  "map alert_id (generate_alerts (Some demo_results) None None None)
     = [''SEC-CS-0002'', ''SEC-BF-0001'', ''SEC-IP-0003'']"
  by code_simp

subsection \<open>Rolling z-score\<close>

lemma sqrt_90000: "sqrt 90000 = 300"
  by (rule real_sqrt_unique) simp_all

lemma sqrt_10000_9: "sqrt (10000 / 9) = 100 / 3"
  by (rule real_sqrt_unique) (simp_all add: power2_eq_square)

lemma upt9: "[0..<9] = [0,1,2,3,4,5,6,7,8]"
  by code_simp

lemma z_high: "rolling_zscore 20 [100,100,100,100,100,100,100,100,1000] = Inr [0,0,0,0,0,0,0,0,8/3]"
  by (simp add: rolling_zscore_def upt9 zscore_at_def window_at_def mean_def sample_std_def Let_def sqrt_90000)

lemma z_low: "rolling_zscore 20 [100,100,100,100,100,100,100,100,0] = Inr [0,0,0,0,0,0,0,0,-8/3]"
  by (simp add: rolling_zscore_def upt9 zscore_at_def window_at_def mean_def sample_std_def Let_def sqrt_10000_9 power2_eq_square)

lemma hourly_buckets:
  "groupby hour_bucket (rows hourly_table) =
     [(0, [request 0 100 True]), (3600, [request 3600 100 True]), (7200, [request 7200 100 True]),
      (10800, [request 10800 100 True]), (14400, [request 14400 100 True]),
      (18000, [request 18000 100 True]), (21600, [request 21600 100 True]),
      (25200, [request 25200 100 True]), (28800, [request 28800 1000 False])]"
  by code_simp

lemma hourly_cols: "has_col hourly_table ''is_failure''" "has_col hourly_table ''hour_bucket''"
  "has_col hourly_table ''latency_ms''"
  by code_simp+

lemma error_rate_one: "error_rate_of [request t lat True] = 100" "error_rate_of [request t lat False] = 0"
  by (simp_all add: error_rate_of_def request_def round_dp_def rint_def)

lemma request_fields: "is_failure (request t lat fail) = fail" "latency_ms (request t lat fail) = lat"
  by (simp_all add: request_def)

text \<open>
  Claim C3. The claim has the error-rate series flagged on \<open>|z| > threshold\<close>, low
  error rates included, as \<^verbatim>\<open>detect_spikes\<close> does and as the docstring of
  \<^verbatim>\<open>rolling_zscore\<close> says. \<^verbatim>\<open>detect_error_rate_spikes\<close> compares \<open>z\<close> itself with
  the threshold: on \<open>hourly_table\<close> the last bucket has \<open>z = -8/3\<close>, whose absolute
  value exceeds the threshold 2.5, and is not flagged.
\<close>

theorem error_rate_drop_not_flagged:
  "detect_error_rate_spikes ML_CONFIG hourly_table hour_bucket_col = Inr hourly_error_rows
   \<and> er_zscore (last hourly_error_rows) = - 8 / 3
   \<and> zscore_threshold ML_CONFIG < \<bar>er_zscore (last hourly_error_rows)\<bar>
   \<and> \<not> er_is_spike (last hourly_error_rows)"
proof -
  have "detect_error_rate_spikes ML_CONFIG hourly_table hour_bucket_col = Inr hourly_error_rows"
    unfolding detect_error_rate_spikes_def Let_def
    by (simp add: hourly_cols hour_bucket_col_def ML_CONFIG_def z_low hourly_buckets
          hourly_error_rows_def error_rate_one request_fields)
  then show ?thesis
    by (simp add: hourly_error_rows_def ML_CONFIG_def)
qed

theorem error_rate_drop_not_flagged_witness:
  "detect_error_rate_spikes ML_CONFIG hourly_table hour_bucket_col = Inr hourly_error_rows
   \<and> map er_error_rate hourly_error_rows = [100, 100, 100, 100, 100, 100, 100, 100, 0]
   \<and> map er_is_spike hourly_error_rows
       = [False, False, False, False, False, False, False, False, False]"
  using error_rate_drop_not_flagged by (simp add: hourly_error_rows_def)

lemma first_window_stats:
  assumes "0 < w" and "xs \<noteq> []"
  shows "window_at w xs 0 = [xs ! 0] \<and> mean (window_at w xs 0) = xs ! 0
       \<and> sample_std (window_at w xs 0) = None"
proof -
  from assms obtain x rest where "xs = x # rest" by (cases xs) auto
  with assms(1) have "window_at w xs 0 = [xs ! 0]"
    by (simp add: window_at_def)
  then show ?thesis by (simp add: mean_def sample_std_def)
qed

lemma zscore_at_first:
  assumes "0 < w" and "xs \<noteq> []"
  shows "zscore_at w xs 0 = 0"
  using first_window_stats [OF assms] by (simp add: zscore_at_def Let_def mean_def sample_std_def)

lemma rolling_zscore_first:
  assumes "1 \<le> window" and "series \<noteq> []"
  shows "\<exists>zs. rolling_zscore window series = Inr (0 # zs) \<and> length zs = length series - 1"
proof -
  from assms(2) obtain x rest where xr: "series = x # rest" by (cases series) auto
  have w: "0 < nat window" using assms(1) by simp
  have "[0..<length series] = 0 # [1..<length series]"
    using xr by (simp add: upt_rec)
  then have "map (zscore_at (nat window) series) [0..<length series]
               = 0 # map (zscore_at (nat window) series) [1..<length series]"
    using zscore_at_first [OF w assms(2)] by simp
  with assms(1) show ?thesis
    by (simp add: rolling_zscore_def)
qed

lemma hd_sort_Min:
  fixes xs :: "'a::linorder list"
  assumes "xs \<noteq> []"
  shows "hd (sort (remdups xs)) = Min (set xs)"
proof -
  let ?s = "sort (remdups xs)"
  from assms have ne: "?s \<noteq> []" by (metis length_0_conv length_sort remdups_eq_nil_iff)
  then obtain y ys where s: "?s = y # ys" by (cases ?s) auto
  have "sorted ?s" by simp
  with s have "\<forall>z\<in>set ys. y \<le> z" by simp
  moreover have "set ?s = set xs" by simp
  ultimately have "y \<in> set xs" "\<forall>z\<in>set xs. y \<le> z"
    using s by (metis list.set_intros(1), metis order_refl set_ConsD)
  then have "Min (set xs) = y"
    by (intro Min_eqI) auto
  with s show ?thesis by simp
qed

text \<open>
  Claim C10. For a table with at least one row, a strictly positive threshold and a valid
  rolling window (at least 1, as pandas requires): the spike series exists, its first row
  is the earliest time bucket, that row has z-score exactly 0 and is not flagged, no later
  row has its time, and the detector returns only flagged rows among the later ones. The
  first window holds the first value alone, so its mean is that value and its standard
  deviation is undefined and replaced by 1 (\<open>first_window_stats\<close>).
\<close>

theorem first_bucket_never_spike:
  assumes "rows df \<noteq> []"
    and "0 < (case threshold of None \<Rightarrow> zscore_threshold ml | Some t \<Rightarrow> t)"
    and "1 \<le> zscore_window ml"
  shows "\<exists>r rs. spike_series ml df metric_col time_col threshold = Inr (r # rs)
           \<and> sp_time r = Min (col_get time_col ` set (rows df))
           \<and> sp_zscore r = 0
           \<and> \<not> sp_is_spike r
           \<and> sp_time r \<notin> sp_time ` set rs
           \<and> (has_col df (col_name metric_col) \<and> has_col df (col_name time_col)
                \<longrightarrow> detect_spikes ml df metric_col time_col threshold
                      = Inr (filter sp_is_spike rs))"
proof -
  let ?thr = "case threshold of None \<Rightarrow> zscore_threshold ml | Some t \<Rightarrow> t"
  let ?buckets = "groupby (col_get time_col) (rows df)"
  let ?avg = "map (\<lambda>bg. mean (map (col_get metric_col) (snd bg))) ?buckets"
  let ?row = "\<lambda>(bg, z). spike_row ?thr bg metric_col z"
  have keys: "map fst ?buckets = sort (remdups (map (col_get time_col) (rows df)))"
    by (rule groupby_keys)
  from assms(1) have "map fst ?buckets \<noteq> []"
    unfolding keys by (metis length_0_conv length_sort remdups_eq_nil_iff map_is_Nil_conv)
  then obtain b bs where bb: "?buckets = b # bs" by (cases ?buckets) auto
  then have avg_ne: "?avg \<noteq> []" by simp
  from rolling_zscore_first [OF assms(3) avg_ne] obtain zs
    where zs: "rolling_zscore (zscore_window ml) ?avg = Inr (0 # zs)"
      and len: "length zs = length ?avg - 1" by blast
  define r where "r = spike_row ?thr b metric_col 0"
  define rs where "rs = map ?row (zip bs zs)"
  have series: "spike_series ml df metric_col time_col threshold = Inr (r # rs)"
    using zs bb by (simp add: spike_series_def Let_def r_def rs_def)
  have time_r: "sp_time r = fst b"
    by (simp add: r_def spike_row_def Let_def)
  have "fst b = hd (map fst ?buckets)" using bb by simp
  also have "\<dots> = Min (set (map (col_get time_col) (rows df)))"
    unfolding keys using assms(1) by (intro hd_sort_Min) simp
  finally have tmin: "sp_time r = Min (col_get time_col ` set (rows df))"
    using time_r by simp
  have z: "sp_zscore r = 0" and nospike: "\<not> sp_is_spike r"
    using assms(2) by (simp_all add: r_def spike_row_def Let_def)
  have "distinct (map fst ?buckets)" unfolding keys by simp
  then have fresh: "fst b \<notin> fst ` set bs" using bb by simp
  have "sp_time ` set rs \<subseteq> fst ` set bs"
  proof
    fix t assume "t \<in> sp_time ` set rs"
    then obtain bg z' where "(bg, z') \<in> set (zip bs zs)" "t = sp_time (spike_row ?thr bg metric_col z')"
      by (auto simp: rs_def)
    then show "t \<in> fst ` set bs"
      by (auto simp: spike_row_def Let_def dest: set_zip_leftD)
  qed
  with fresh time_r have notin: "sp_time r \<notin> sp_time ` set rs" by auto
  have det: "detect_spikes ml df metric_col time_col threshold = Inr (filter sp_is_spike rs)"
    if "has_col df (col_name metric_col) \<and> has_col df (col_name time_col)"
    using that series nospike by (simp add: detect_spikes_def)
  from series tmin z nospike notin det show ?thesis by blast
qed

lemma hourly_detect_spikes:
  "detect_spikes ML_CONFIG hourly_table latency_ms_col hour_bucket_col None = Inr hourly_spikes"
  unfolding detect_spikes_def spike_series_def Let_def
  by (simp add: hourly_cols hour_bucket_col_def latency_ms_col_def ML_CONFIG_def z_high hourly_buckets
        hourly_spikes_def request_fields spike_row_def mean_def sample_std_def)

theorem first_bucket_never_spike_witness:
  "rows hourly_table \<noteq> [] \<and> 0 < zscore_threshold ML_CONFIG \<and> 1 \<le> zscore_window ML_CONFIG
   \<and> Min (hour_bucket ` set (rows hourly_table)) = 0
   \<and> detect_spikes ML_CONFIG hourly_table latency_ms_col hour_bucket_col None = Inr hourly_spikes
   \<and> map sp_time hourly_spikes = [28800]
   \<and> 0 \<notin> sp_time ` set hourly_spikes"
proof -
  have h1: "rows hourly_table \<noteq> []" by (simp add: hourly_table_def)
  have h2: "0 < (case None of None \<Rightarrow> zscore_threshold ML_CONFIG | Some t \<Rightarrow> t)"
    by (simp add: ML_CONFIG_def)
  have h3: "1 \<le> zscore_window ML_CONFIG" by (simp add: ML_CONFIG_def)
  have m: "Min (hour_bucket ` set (rows hourly_table)) = 0"
    by (simp add: hourly_table_def request_def)
  have cols: "has_col hourly_table (col_name latency_ms_col)
              \<and> has_col hourly_table (col_name hour_bucket_col)"
    using hourly_cols by (simp add: hour_bucket_col_def latency_ms_col_def)
  have g: "col_get hour_bucket_col = hour_bucket"
    by (simp add: hour_bucket_col_def)
  from first_bucket_never_spike [OF h1 h2 h3, of latency_ms_col hour_bucket_col]
  obtain r :: spike and rs :: "spike list"
    where t: "sp_time r = Min (col_get hour_bucket_col ` set (rows hourly_table))"
    and n: "sp_time r \<notin> sp_time ` set rs"
    and i: "has_col hourly_table (col_name latency_ms_col) \<and> has_col hourly_table (col_name hour_bucket_col)
              \<longrightarrow> detect_spikes ML_CONFIG hourly_table latency_ms_col hour_bucket_col None
                    = Inr (filter sp_is_spike rs)"
    by blast
  from i cols have d: "detect_spikes ML_CONFIG hourly_table latency_ms_col hour_bucket_col None
              = Inr (filter sp_is_spike rs)" by blast
  note t = t [unfolded g]
  from d hourly_detect_spikes have "hourly_spikes = filter sp_is_spike rs" by simp
  then have "set hourly_spikes \<subseteq> set rs" by (metis filter_is_subset)
  with n t m have "0 \<notin> sp_time ` set hourly_spikes" by auto
  with h1 h2 h3 m hourly_detect_spikes show ?thesis
    by (simp add: hourly_spikes_def)
qed

subsection \<open>Risk fusion: tiers and the anomaly component\<close>

lemma set_sort_desc: "set (sort_desc f xs) = set xs"
  by (simp add: sort_desc_def)

lemma rint_bounds:
  assumes "0 \<le> x" and "x \<le> real_of_int n"
  shows "0 \<le> rint x \<and> rint x \<le> n"
proof -
  have f0: "0 \<le> \<lfloor>x\<rfloor>" using assms(1) by simp
  have fn: "\<lfloor>x\<rfloor> \<le> n" using assms(2) by (simp add: floor_le_iff)
  show ?thesis
  proof (cases "\<lfloor>x\<rfloor> = n")
    case True
    then have "x - of_int \<lfloor>x\<rfloor> \<le> 0" using assms(2) by simp
    then have "x - of_int \<lfloor>x\<rfloor> < 1 / 2" by simp
    then have "rint x = \<lfloor>x\<rfloor>" by (simp add: rint_def Let_def)
    with f0 True show ?thesis by simp
  next
    case False
    with fn have "\<lfloor>x\<rfloor> + 1 \<le> n" by simp
    moreover have "\<lfloor>x\<rfloor> \<le> rint x \<and> rint x \<le> \<lfloor>x\<rfloor> + 1"
      by (simp add: rint_def Let_def)
    ultimately show ?thesis using f0 by linarith
  qed
qed

lemma round_dp1_bounds:
  assumes "0 \<le> x" and "x \<le> 100"
  shows "0 \<le> round_dp 1 x \<and> round_dp 1 x \<le> 100"
proof -
  have "0 \<le> x * 10" "x * 10 \<le> real_of_int 1000" using assms by simp_all
  from rint_bounds [OF this] have "0 \<le> rint (x * 10)" "rint (x * 10) \<le> 1000" by simp_all
  then have "0 \<le> real_of_int (rint (x * 10))" "real_of_int (rint (x * 10)) \<le> 1000"
    by simp_all
  then show ?thesis by (simp add: round_dp_def)
qed

lemma composite_bounds: "0 \<le> composite u \<and> composite u \<le> 100"
  unfolding composite_def by (rule round_dp1_bounds) (simp_all add: clip_def)

lemma user_tier_bins:
  assumes "0 \<le> s" and "s \<le> 100"
  shows "user_tier s = Some (if s \<le> 25 then ''Low'' else if s \<le> 50 then ''Medium''
                             else if s \<le> 75 then ''High'' else ''Critical'')"
  using assms by (simp add: user_tier_def tier_labels_def)

lemma reputation_tier_bins:
  assumes "0 \<le> s" and "s \<le> 100"
  shows "reputation_tier s = Some (if s \<le> 25 then ''Low'' else if s \<le> 50 then ''Medium''
                                   else if s \<le> 70 then ''High'' else ''Critical'')"
  using assms by (simp add: reputation_tier_def tier_labels_def)

text \<open>
  Claim C1, as amended. Every record of the per-user risk fusion has a composite score
  between 0 and 100 and the tier of the bins \<open>(-1,25] = Low\<close>, \<open>(25,50] = Medium\<close>,
  \<open>(50,75] = High\<close>, \<open>(75,100] = Critical\<close>: the High bin ends at 75, not at the 70
  of the IP-reputation tiers, and a composite score is tiered Critical exactly when it
  exceeds 75.
\<close>

theorem user_risk_tier_bins:
  assumes "calculate_user_risk_scores df security ml = Inr users" and "r \<in> set users"
  shows "0 \<le> risk_score r \<and> risk_score r \<le> 100
       \<and> risk_tier r = Some (if risk_score r \<le> 25 then ''Low''
                             else if risk_score r \<le> 50 then ''Medium''
                             else if risk_score r \<le> 75 then ''High'' else ''Critical'')"
proof -
  from assms obtain us where "users = sort_desc risk_score (map with_composite us)"
    by (auto simp: calculate_user_risk_scores_def bind_err_def split: if_splits sum.splits)
  with assms(2) obtain u where r: "r = with_composite u"
    by (auto simp: set_sort_desc)
  have rs: "risk_score r = composite u" and rt: "risk_tier r = user_tier (composite u)"
    by (simp_all add: r with_composite_def)
  from composite_bounds [of u] user_tier_bins [of "composite u"] rs rt show ?thesis
    by simp
qed

theorem user_risk_tier_bins_witness:
  "calculate_user_risk_scores fusion_table (Some fusion_security) (Some fusion_ml) = Inr fusion_risks_sec
   \<and> hd fusion_risks_sec \<in> set fusion_risks_sec
   \<and> risk_score (hd fusion_risks_sec) = 79
   \<and> risk_tier (hd fusion_risks_sec) = Some ''Critical''"
proof -
  have run: "calculate_user_risk_scores fusion_table (Some fusion_security) (Some fusion_ml)
               = Inr fusion_risks_sec"
    by code_simp
  have mem: "hd fusion_risks_sec \<in> set fusion_risks_sec"
    by (simp add: fusion_risks_sec_def)
  have sc: "risk_score (hd fusion_risks_sec) = 79"
    by (simp add: fusion_risks_sec_def)
  from user_risk_tier_bins [OF run mem] sc run mem show ?thesis
    by simp
qed

text \<open>
  Claim C1 as stated fails: the first user's composite score is 72, above 70, and the
  fusion tiers it High, where the IP-reputation bins give Critical.
\<close>

theorem user_risk_tier_counterexample:
  "calculate_user_risk_scores fusion_table None (Some fusion_ml) = Inr fusion_risks
   \<and> map risk_score fusion_risks = [72, 25 / 2]
   \<and> map risk_tier fusion_risks = [Some ''High'', Some ''Low'']
   \<and> reputation_tier 72 = Some ''Critical''"
proof -
  have "calculate_user_risk_scores fusion_table None (Some fusion_ml) = Inr fusion_risks"
    by code_simp
  moreover have "reputation_tier 72 = Some ''Critical''"
    by (simp add: reputation_tier_def tier_labels_def)
  ultimately show ?thesis
    by (simp add: fusion_risks_def)
qed

text \<open>
  The join of line 52 needs the \<^verbatim>\<open>session_id\<close> column of the isolation-forest table:
  with a table of scores that has none, the fusion raises instead of leaving the
  component at 0.
\<close>

lemma anomaly_join_without_session_column_raises:
  "calculate_user_risk_scores join_table None
     (Some \<lparr> isolation_forest = Some \<lparr> if_columns = [''anomaly_score''],
                                           if_rows = if_rows join_if_table \<rparr>,
             kmeans = None \<rparr>)
   = Inl (KeyError ''session_id'')"
  by code_simp

text \<open>
  Claim C2. The claim gives the anomaly component 0 to every user for whom the join of
  sessions to users yields no anomaly score. On \<open>join_table\<close> the isolation-forest table
  has the rows \<open>(s1, -1)\<close>, \<open>(s2, 0)\<close> and \<open>(s3, 2/5)\<close>, the sessions of the first user,
  and no row for the one session \<open>s4\<close> of the second user. The first user's component
  is \<open>(0 - a) * 50 + 50 = 60\<close> for the average \<open>a = (-1 + 0 + 2/5) / 3 = -1/5\<close> of the
  three scores, as claimed. The second user has no average, and the component is 50:
  line 58 fills the missing average with 0 before the transform instead of leaving
  the component at its default. Without ML results both users have the component 0.
\<close>

theorem score_anomaly_unjoined_user:
  "calculate_user_risk_scores join_table None (Some join_ml) = Inr join_risks
   \<and> map ur_user_id join_risks = [''alice'', ''bob'']
   \<and> map avg_anomaly_score join_risks = [Some (- 1 / 5), None]
   \<and> map score_anomaly join_risks = [60, 50]
   \<and> map (\<lambda>e. (session_id e, user_id e)) (rows join_table)
       = [(''s1'', ''alice''), (''s2'', ''alice''), (''s3'', ''alice''), (''s4'', ''bob'')]
   \<and> map (\<lambda>r. (if_session_id r, if_anomaly_score r)) (if_rows join_if_table)
       = [(''s1'', - 1), (''s2'', 0), (''s3'', 2 / 5)]
   \<and> map_sum id (map (\<lambda>u. (ur_user_id u, score_anomaly u)))
         (calculate_user_risk_scores join_table None None)
       = Inr [(''alice'', 0), (''bob'', 0)]"
proof -
  have "calculate_user_risk_scores join_table None (Some join_ml) = Inr join_risks"
    by code_simp
  moreover have "map (\<lambda>e. (session_id e, user_id e)) (rows join_table)
       = [(''s1'', ''alice''), (''s2'', ''alice''), (''s3'', ''alice''), (''s4'', ''bob'')]"
    by (simp add: join_table_def visit_def)
  moreover have "map (\<lambda>r. (if_session_id r, if_anomaly_score r)) (if_rows join_if_table)
       = [(''s1'', - 1), (''s2'', 0), (''s3'', 2 / 5)]"
    by (simp add: join_if_table_def)
  moreover have "map_sum id (map (\<lambda>u. (ur_user_id u, score_anomaly u)))
         (calculate_user_risk_scores join_table None None)
       = Inr [(''alice'', 0), (''bob'', 0)]"
    by code_simp
  ultimately show ?thesis
    by (simp add: join_risks_def)
qed

theorem score_anomaly_unjoined_user_witness:
  "calculate_user_risk_scores join_table None (Some join_ml) = Inr join_risks
   \<and> user_anomaly join_table join_if_table ''alice'' = Some (- 1 / 5)
   \<and> user_anomaly join_table join_if_table ''bob'' = None
   \<and> map score_anomaly join_risks = [60, 50]"
proof -
  have "user_anomaly join_table join_if_table ''alice'' = Some (- 1 / 5)"
    "user_anomaly join_table join_if_table ''bob'' = None"
    by code_simp+
  with score_anomaly_unjoined_user show ?thesis
    by simp
qed

end
